theory Spec2Isabelle
  imports Complex_Main
begin

section \<open>Values exchanged with the services\<close>

text \<open>
  The handlers of \<^verbatim>\<open>routes/citas.js\<close> receive the bodies of the other services as
  parsed JSON.  \<open>JObj\<close> holds the properties of a parsed object (keys distinct, as
  \<^verbatim>\<open>JSON.parse\<close> leaves them), \<open>JNum\<close> the value of a number.  A JavaScript value that
  may be \<^verbatim>\<open>undefined\<close> is a \<open>jsval\<close>, with \<open>None\<close> for \<^verbatim>\<open>undefined\<close>.
\<close>

datatype json =
    JNull
  | JBool bool
  | JNum rat
  | JStr string
  | JArr "json list"
  | JObj "(string \<times> json) list"

type_synonym jsval = "json option"

text \<open>Truthiness, as \<^verbatim>\<open>if (x)\<close>, \<^verbatim>\<open>!x\<close> and \<^verbatim>\<open>x || y\<close> test it.\<close>

fun truthy :: "json \<Rightarrow> bool" where
  "truthy JNull = False"
| "truthy (JBool b) = b"
| "truthy (JNum n) = (n \<noteq> 0)"
| "truthy (JStr s) = (s \<noteq> [])"
| "truthy (JArr xs) = True"
| "truthy (JObj kvs) = True"

datatype axios_error =
    With_response nat json
  | No_response
  | Setup_error

datatype exn =
    Axios axios_error
  | TypeError
  | ERR_HTTP_HEADERS_SENT

text \<open>
  An axios call resolves with the body of a 2xx answer (\<open>Inr data\<close>) and rejects
  otherwise: \<open>With_response status data\<close> is an error whose \<^verbatim>\<open>error.response\<close> is set,
  with the status code of the answer (three digits, not 2xx) and its body,
  \<open>No_response\<close> one with only \<^verbatim>\<open>error.request\<close>, \<open>Setup_error\<close> one with neither.
  Every call is taken to settle: no timeout is set, and a call that never settles
  leaves the handler waiting, with no response to its caller.
\<close>

type_synonym axios_result = "axios_error + json"

text \<open>
  Reading a property \<^verbatim>\<open>d.k\<close>, for the names the handlers read (\<^verbatim>\<open>dia\<close>, \<^verbatim>\<open>hora\<close>,
  \<^verbatim>\<open>dniDoctor\<close>, \<^verbatim>\<open>id\<close>, \<^verbatim>\<open>nombres\<close>, \<^verbatim>\<open>apellidos\<close>, \<^verbatim>\<open>especialidad\<close>): an object
  gives its property or \<^verbatim>\<open>undefined\<close>, any other value but \<^verbatim>\<open>null\<close> gives
  \<^verbatim>\<open>undefined\<close>, and \<^verbatim>\<open>null\<close> throws a TypeError.
\<close>

fun own :: "json \<Rightarrow> string \<Rightarrow> jsval" where
  "own (JObj kvs) k = map_of kvs k"
| "own d k = None"

definition read_prop :: "json \<Rightarrow> string \<Rightarrow> exn + jsval" where
  "read_prop d k = (if d = JNull then Inl TypeError else Inr (own d k))"

section \<open>Requests, responses and the trace of a handler\<close>

text \<open>
  A template literal is kept as its parts: \<open>Lit s\<close> for text (request parameters, which
  are strings, are concatenated into it) and \<open>Val v\<close> for an interpolated value that
  came out of a JSON body.
\<close>

datatype part = Lit string | Val jsval

type_synonym template = "part list"

datatype http_method = GET | POST | DELETE

text \<open>
  An entry of the list sent by the listing route: \<open>Con_doctor fields doctor\<close> is the object
  literal with the given fields and the nested \<^verbatim>\<open>doctor\<close> object,
  \<open>Sin_doctor cita marker\<close> is \<^verbatim>\<open>{ ...cita, doctor: marker }\<close>.
\<close>

datatype entry =
    Con_doctor "(string \<times> jsval) list" "(string \<times> jsval) list"
  | Sin_doctor json string

datatype payload =
    Text template
  | Entries "entry list"
  | Data json

text \<open>
  What a handler does, in program order: \<open>Request m url body\<close> is an axios call,
  \<open>Send status body\<close> is \<^verbatim>\<open>res.status(status).send(body)\<close> reaching the caller, and
  \<open>Uncaught e\<close> is an exception leaving the handler.  Console output is left out.
\<close>

datatype event =
    Request http_method template "(string \<times> jsval) list option"
  | Send nat payload
  | Uncaught exn

fun responses :: "event list \<Rightarrow> (nat \<times> payload) list" where
  "responses [] = []"
| "responses (Send code body # tr) = (code, body) # responses tr"
| "responses (e # tr) = responses tr"

fun requests :: "event list \<Rightarrow> (http_method \<times> template \<times> (string \<times> jsval) list option) list" where
  "requests [] = []"
| "requests (Request m url body # tr) = (m, url, body) # requests tr"
| "requests (e # tr) = requests tr"

text \<open>
  Express sends one response per request: \<^verbatim>\<open>send\<close> on a response whose headers are
  sent throws and leaves what the caller received as it is.
\<close>

definition send :: "nat \<Rightarrow> payload \<Rightarrow> event list \<Rightarrow> event list \<times> exn option" where
  "send code body tr =
     (if responses tr \<noteq> [] then (tr, Some ERR_HTTP_HEADERS_SENT)
      else (tr @ [Send code body], None))"

section \<open>Constants of routes/citas.js\<close>

definition PACIENTE_SERVICE_URL :: string where
  "PACIENTE_SERVICE_URL = ''http://pacientes:8000/pacientes''"

definition DOCTOR_SERVICE_URL :: string where
  "DOCTOR_SERVICE_URL = ''http://doctores:3000/doctors''"

definition DISPONIBILIDAD_SERVICE_URL :: string where
  "DISPONIBILIDAD_SERVICE_URL = ''http://doctores:3000/disponibilidad''"

definition CITA_SERVICE_URL :: string where
  "CITA_SERVICE_URL = ''http://historiamedica:8080/citas''"

text \<open>The letters outside ASCII of the messages, in UTF-8.\<close>

definition e_acute :: string where
  "e_acute = [CHR 0xC3, CHR 0xA9]"

definition a_acute :: string where
  "a_acute = [CHR 0xC3, CHR 0xA1]"

definition o_acute :: string where
  "o_acute = [CHR 0xC3, CHR 0xB3]"

definition Cita_agendada :: string where
  "Cita_agendada = ''Cita agendada con '' @ e_acute @ ''xito''"

definition Doctor_no_disponible :: string where
  "Doctor_no_disponible =
     ''El doctor no est'' @ a_acute @ '' disponible en la fecha y hora solicitadas.''"

section \<open>POST /agendar\<close>

record booking =
  dniPaciente :: string
  dniDoctor :: string
  dia :: string
  hora :: string

text \<open>
  The answers of the other services to the five calls of the handler, each read only
  if the handler gets as far as making that call.
\<close>

record agendar_upstream =
  pacienteResponse :: axios_result
  doctorResponse :: axios_result
  disponibilidadResponse :: axios_result
  citaResponse :: axios_result
  eliminarResponse :: axios_result

text \<open>\<^verbatim>\<open>error.response?.status || 500\<close>\<close>

fun statusCode :: "axios_error \<Rightarrow> nat" where
  "statusCode (With_response status d) = (if status = 0 then 500 else status)"
| "statusCode No_response = 500"
| "statusCode Setup_error = 500"

text \<open>\<^verbatim>\<open>d.dia === dia && d.hora === hora\<close>, for strings \<^verbatim>\<open>dia\<close> and \<^verbatim>\<open>hora\<close>.\<close>

definition slot_matches :: "string \<Rightarrow> string \<Rightarrow> json \<Rightarrow> exn + bool" where
  "slot_matches di ho d =
     (case read_prop d ''dia'' of
        Inl e \<Rightarrow> Inl e
      | Inr v \<Rightarrow>
          if v = Some (JStr di)
          then (case read_prop d ''hora'' of
                  Inl e \<Rightarrow> Inl e
                | Inr w \<Rightarrow> Inr (w = Some (JStr ho)))
          else Inr False)"

text \<open>\<^verbatim>\<open>Array.prototype.some\<close>: stops at the first element the callback accepts.\<close>

fun some_slot :: "string \<Rightarrow> string \<Rightarrow> json list \<Rightarrow> exn + bool" where
  "some_slot di ho [] = Inr False"
| "some_slot di ho (d # ds) =
     (case slot_matches di ho d of
        Inl e \<Rightarrow> Inl e
      | Inr True \<Rightarrow> Inr True
      | Inr False \<Rightarrow> some_slot di ho ds)"

text \<open>\<^verbatim>\<open>disponibilidad.some(...)\<close>: only an array has the method.\<close>

fun disponibilidad_some :: "string \<Rightarrow> string \<Rightarrow> json \<Rightarrow> exn + bool" where
  "disponibilidad_some di ho (JArr ds) = some_slot di ho ds"
| "disponibilidad_some di ho d = Inl TypeError"

definition citaData :: "booking \<Rightarrow> (string \<times> jsval) list" where
  "citaData req =
     [(''dniPaciente'', Some (JStr (dniPaciente req))),
      (''dniDoctor'', Some (JStr (dniDoctor req))),
      (''dia'', Some (JStr (dia req))),
      (''hora'', Some (JStr (hora req)))]"

definition paciente_request :: "booking \<Rightarrow> event" where
  "paciente_request req =
     Request GET [Lit (PACIENTE_SERVICE_URL @ ''/'' @ dniPaciente req)] None"

definition doctor_request :: "booking \<Rightarrow> event" where
  "doctor_request req =
     Request GET [Lit (DOCTOR_SERVICE_URL @ ''/'' @ dniDoctor req)] None"

definition disponibilidad_request :: "booking \<Rightarrow> event" where
  "disponibilidad_request req =
     Request GET [Lit (DISPONIBILIDAD_SERVICE_URL @ ''/'' @ dniDoctor req)] None"

definition cita_request :: "booking \<Rightarrow> event" where
  "cita_request req =
     Request POST [Lit (CITA_SERVICE_URL @ ''/'' @ dniPaciente req)] (Some (citaData req))"

definition eliminar_request :: "booking \<Rightarrow> event" where
  "eliminar_request req =
     Request DELETE [Lit (DISPONIBILIDAD_SERVICE_URL @ ''/'' @ dniDoctor req)]
       (Some [(''dia'', Some (JStr (dia req))), (''hora'', Some (JStr (hora req)))])"

text \<open>
  The body of the outer \<^verbatim>\<open>try\<close>: the trace so far and the exception that left the
  block, if one did.  Steps 1 and 2 have their own \<^verbatim>\<open>catch\<close>, which answers and returns.
\<close>

definition agendar_try :: "agendar_upstream \<Rightarrow> booking \<Rightarrow> event list \<times> exn option" where
  "agendar_try up req =
     (let tr1 = [paciente_request req] in
      case pacienteResponse up of
        Inl error \<Rightarrow>
          send (statusCode error)
            (Text [Lit (if statusCode error = 404 then ''Paciente no encontrado''
                        else ''Error al verificar el Paciente'')]) tr1
      | Inr pdata \<Rightarrow>
          if \<not> truthy pdata then send 404 (Text [Lit ''Paciente no encontrado'']) tr1
          else
            (let tr2 = tr1 @ [doctor_request req] in
             case doctorResponse up of
               Inl error \<Rightarrow>
                 send (statusCode error)
                   (Text [Lit (if statusCode error = 404 then ''Doctor no encontrado''
                               else ''Error al verificar el doctor'')]) tr2
             | Inr ddata \<Rightarrow>
                 if \<not> truthy ddata then send 404 (Text [Lit ''Doctor no encontrado'']) tr2
                 else
                   (let tr3 = tr2 @ [disponibilidad_request req] in
                    case disponibilidadResponse up of
                      Inl error \<Rightarrow> (tr3, Some (Axios error))
                    | Inr disponibilidad \<Rightarrow>
                        (case disponibilidad_some (dia req) (hora req) disponibilidad of
                           Inl e \<Rightarrow> (tr3, Some e)
                         | Inr False \<Rightarrow> send 400 (Text [Lit Doctor_no_disponible]) tr3
                         | Inr True \<Rightarrow>
                             (let tr4 = tr3 @ [cita_request req] in
                              case citaResponse up of
                                Inl error \<Rightarrow> (tr4, Some (Axios error))
                              | Inr cdata \<Rightarrow>
                                  (case send 201 (Text [Lit Cita_agendada]) tr4 of
                                     (tr5, Some e) \<Rightarrow> (tr5, Some e)
                                   | (tr5, None) \<Rightarrow>
                                       (let tr6 = tr5 @ [eliminar_request req] in
                                        case eliminarResponse up of
                                          Inl error \<Rightarrow> (tr6, Some (Axios error))
                                        | Inr edata \<Rightarrow> (tr6, None))))))))"

text \<open>
  The outer \<^verbatim>\<open>catch\<close> answers 500; when a response is out already, its own
  \<^verbatim>\<open>send\<close> throws and the exception leaves the handler.
\<close>

definition catch_send :: "nat \<Rightarrow> payload \<Rightarrow> event list \<Rightarrow> event list" where
  "catch_send code body tr =
     (case send code body tr of
        (tr', None) \<Rightarrow> tr'
      | (tr', Some e) \<Rightarrow> tr' @ [Uncaught e])"

definition agendar :: "agendar_upstream \<Rightarrow> booking \<Rightarrow> event list" where
  "agendar up req =
     (case agendar_try up req of
        (tr, None) \<Rightarrow> tr
      | (tr, Some error) \<Rightarrow> catch_send 500 (Text [Lit ''Error al agendar la cita'']) tr)"

section \<open>DELETE /cancelar/:idCita\<close>

record cancelar_upstream =
  obtenerCita :: axios_result
  eliminarCita :: axios_result
  restaurarDisponibilidad :: axios_result

definition Cita_cancelada :: string where
  "Cita_cancelada = ''Cita cancelada y disponibilidad restaurada con '' @ e_acute @ ''xito''"

definition No_se_recibio :: string where
  "No_se_recibio = ''No se recibi'' @ o_acute @ '' respuesta del servicio de citas''"

text \<open>
  \<^verbatim>\<open>axios.post(`${DISPONIBILIDAD_SERVICE_URL}/${dniDoctor}`, { dia, hora })\<close>, the three
  values destructured from the appointment.  The appointment is truthy where this is
  built, so it is not \<^verbatim>\<open>null\<close> and the destructuring does not throw.
\<close>

definition restaurar_request :: "json \<Rightarrow> event" where
  "restaurar_request cita =
     Request POST [Lit (DISPONIBILIDAD_SERVICE_URL @ ''/''), Val (own cita ''dniDoctor'')]
       (Some [(''dia'', own cita ''dia''), (''hora'', own cita ''hora'')])"

subsection \<open>The handler of AgendarCita/routes/citas.js\<close>

definition Error_restarurando :: "json \<Rightarrow> template" where
  "Error_restarurando cita =
     [Lit ''Error restarurando la disponibilidad para el doctor '', Val (own cita ''dniDoctor''),
      Lit '' en '', Val (own cita ''dia''), Lit '' a las '', Val (own cita ''hora'')]"

text \<open>
  The inner \<^verbatim>\<open>catch\<close> sends 500 and does not return: control goes on to the
  \<^verbatim>\<open>send\<close> of the 200, which then throws into the outer \<^verbatim>\<open>catch\<close>.
\<close>

definition cancelar_try :: "cancelar_upstream \<Rightarrow> string \<Rightarrow> event list \<times> exn option" where
  "cancelar_try up idCita =
     (let tr1 = [Request GET [Lit (CITA_SERVICE_URL @ ''/cita/'' @ idCita)] None] in
      case obtenerCita up of
        Inl error \<Rightarrow> (tr1, Some (Axios error))
      | Inr cita \<Rightarrow>
          if \<not> truthy cita then send 404 (Text [Lit ''Cita no encontrada'']) tr1
          else
            (let tr2 = tr1 @ [Request DELETE [Lit (CITA_SERVICE_URL @ ''/cita/'' @ idCita)] None] in
             case eliminarCita up of
               Inl error \<Rightarrow> (tr2, Some (Axios error))
             | Inr ddata \<Rightarrow>
                 (let tr3 = tr2 @ [restaurar_request cita] in
                  case (case restaurarDisponibilidad up of
                          Inl err \<Rightarrow> send 500 (Text (Error_restarurando cita)) tr3
                        | Inr pdata \<Rightarrow> (tr3, None)) of
                    (tr4, Some e) \<Rightarrow> (tr4, Some e)
                  | (tr4, None) \<Rightarrow> send 200 (Text [Lit Cita_cancelada]) tr4)))"

definition cancelar :: "cancelar_upstream \<Rightarrow> string \<Rightarrow> event list" where
  "cancelar up idCita =
     (case cancelar_try up idCita of
        (tr, None) \<Rightarrow> tr
      | (tr, Some error) \<Rightarrow> catch_send 500 (Text [Lit ''Error al cancelar la cita'']) tr)"

subsection \<open>The handler of the second copy of the file (part 000)\<close>

definition cancelar_try_part_000 ::
  "cancelar_upstream \<Rightarrow> string \<Rightarrow> event list \<times> exn option" where
  "cancelar_try_part_000 up idCita =
     (let tr1 = [Request GET [Lit (CITA_SERVICE_URL @ ''/'' @ idCita)] None] in
      case obtenerCita up of
        Inl error \<Rightarrow> (tr1, Some (Axios error))
      | Inr cita \<Rightarrow>
          if \<not> truthy cita then send 404 (Text [Lit ''Cita no encontrada'']) tr1
          else
            (let tr2 = tr1 @ [Request DELETE [Lit (CITA_SERVICE_URL @ ''/'' @ idCita)] None] in
             case eliminarCita up of
               Inl error \<Rightarrow> (tr2, Some (Axios error))
             | Inr ddata \<Rightarrow>
                 (let tr3 = tr2 @ [restaurar_request cita] in
                  case restaurarDisponibilidad up of
                    Inl err \<Rightarrow>
                      send 500
                        (Text [Lit ''Error al restaurar la disponibilidad del doctor '',
                               Val (own cita ''dniDoctor'')]) tr3
                  | Inr pdata \<Rightarrow> send 200 (Text [Lit Cita_cancelada]) tr3)))"

text \<open>
  The outer \<^verbatim>\<open>catch\<close> of this copy relays the status of a service that answered,
  with \<^verbatim>\<open>error.response.data || 'Error al cancelar la cita'\<close> as the body.
\<close>

fun cancelar_catch_part_000 :: "exn \<Rightarrow> event list \<Rightarrow> event list" where
  "cancelar_catch_part_000 (Axios (With_response status d)) tr =
     catch_send status (if truthy d then Data d else Text [Lit ''Error al cancelar la cita'']) tr"
| "cancelar_catch_part_000 (Axios No_response) tr =
     catch_send 500 (Text [Lit No_se_recibio]) tr"
| "cancelar_catch_part_000 error tr =
     catch_send 500 (Text [Lit ''Error desconocido al cancelar la cita'']) tr"

definition cancelar_part_000 :: "cancelar_upstream \<Rightarrow> string \<Rightarrow> event list" where
  "cancelar_part_000 up idCita =
     (case cancelar_try_part_000 up idCita of
        (tr, None) \<Rightarrow> tr
      | (tr, Some error) \<Rightarrow> cancelar_catch_part_000 error tr)"

section \<open>GET /:dniPaciente\<close>

text \<open>
  \<open>doctorResponses i\<close> is the answer of the doctor directory to the lookup made for
  the appointment at index \<open>i\<close> of the fetched list.
\<close>

record listar_upstream =
  citasResponse :: axios_result
  doctorResponses :: "nat \<Rightarrow> axios_result"

definition Error_doctor :: string where
  "Error_doctor = ''Error al obtener los datos del doctor''"

text \<open>\<^verbatim>\<open>!citas.length\<close>\<close>

fun citas_vacias :: "json \<Rightarrow> exn + bool" where
  "citas_vacias JNull = Inl TypeError"
| "citas_vacias (JArr cs) = Inr (cs = [])"
| "citas_vacias (JStr s) = Inr (s = [])"
| "citas_vacias (JObj kvs) =
     Inr (case map_of kvs ''length'' of None \<Rightarrow> True | Some v \<Rightarrow> \<not> truthy v)"
| "citas_vacias d = Inr True"

text \<open>The object built for an appointment whose doctor was fetched, in each copy.\<close>

definition doctor_fields :: "json \<Rightarrow> (string \<times> jsval) list" where
  "doctor_fields doctorData =
     [(''nombres'', own doctorData ''nombres''),
      (''apellidos'', own doctorData ''apellidos''),
      (''especialidad'', own doctorData ''especialidad'')]"

definition cita_con_doctor :: "json \<Rightarrow> json \<Rightarrow> entry" where
  "cita_con_doctor cita doctorData =
     Con_doctor [(''fecha'', own cita ''dia''), (''hora'', own cita ''hora'')]
       (doctor_fields doctorData)"

definition cita_con_doctor_part_000 :: "json \<Rightarrow> json \<Rightarrow> entry" where
  "cita_con_doctor_part_000 cita doctorData =
     Con_doctor [(''id'', own cita ''id''), (''fecha'', own cita ''dia''), (''hora'', own cita ''hora'')]
       (doctor_fields doctorData)"

text \<open>
  The asynchronous callback of \<^verbatim>\<open>citas.map\<close>.  For a \<^verbatim>\<open>null\<close> element
  \<^verbatim>\<open>cita.dniDoctor\<close> throws inside the \<^verbatim>\<open>try\<close> and again inside the \<^verbatim>\<open>catch\<close>, before
  any call is made, and the callback rejects.  Otherwise the doctor is requested; a
  rejected call, or a \<^verbatim>\<open>null\<close> body (reading \<^verbatim>\<open>doctorData.nombres\<close> throws), ends in
  the \<^verbatim>\<open>catch\<close>, which returns the appointment with the marker.
\<close>

definition cita_doctor_request :: "json \<Rightarrow> event list" where
  "cita_doctor_request cita =
     (if cita = JNull then []
      else [Request GET [Lit (DOCTOR_SERVICE_URL @ ''/''), Val (own cita ''dniDoctor'')] None])"

definition cita_entry :: "(json \<Rightarrow> json \<Rightarrow> entry) \<Rightarrow> json \<Rightarrow> axios_result \<Rightarrow> exn + entry" where
  "cita_entry con_doctor cita r =
     (if cita = JNull then Inl TypeError
      else case r of
             Inl error \<Rightarrow> Inr (Sin_doctor cita Error_doctor)
           | Inr doctorData \<Rightarrow>
               if doctorData = JNull then Inr (Sin_doctor cita Error_doctor)
               else Inr (con_doctor cita doctorData))"

text \<open>\<^verbatim>\<open>Promise.all\<close>: the results in the order of the promises, or a rejection.\<close>

fun promise_all :: "(exn + 'a) list \<Rightarrow> exn + 'a list" where
  "promise_all [] = Inr []"
| "promise_all (Inl e # ps) = Inl e"
| "promise_all (Inr x # ps) =
     (case promise_all ps of Inl e \<Rightarrow> Inl e | Inr xs \<Rightarrow> Inr (x # xs))"

text \<open>
  The body of the \<^verbatim>\<open>try\<close>, with the object literal of the copy as a parameter.  The
  callbacks run to their first \<^verbatim>\<open>await\<close> inside \<^verbatim>\<open>map\<close>, so the doctor requests go out
  in the order of the list, before any answer is used.  Only an array has \<^verbatim>\<open>map\<close>.
\<close>

definition listar_try ::
  "(json \<Rightarrow> json \<Rightarrow> entry) \<Rightarrow> listar_upstream \<Rightarrow> string \<Rightarrow> event list \<times> exn option" where
  "listar_try con_doctor up dni =
     (let tr1 = [Request GET [Lit (CITA_SERVICE_URL @ ''/paciente/'' @ dni)] None] in
      case citasResponse up of
        Inl error \<Rightarrow> (tr1, Some (Axios error))
      | Inr citas \<Rightarrow>
          (case citas_vacias citas of
             Inl e \<Rightarrow> (tr1, Some e)
           | Inr True \<Rightarrow>
               send 404 (Text [Lit (''No se encontraron citas para el paciente con DNI '' @ dni)]) tr1
           | Inr False \<Rightarrow>
               (case citas of
                  JArr cs \<Rightarrow>
                    (let tr2 = tr1 @ concat (map cita_doctor_request cs) in
                     case promise_all
                            (map (\<lambda>(i, cita). cita_entry con_doctor cita (doctorResponses up i))
                               (enumerate 0 cs)) of
                       Inl e \<Rightarrow> (tr2, Some e)
                     | Inr citasConDoctor \<Rightarrow> send 200 (Entries citasConDoctor) tr2)
                | _ \<Rightarrow> (tr1, Some TypeError))))"

definition listar_catch :: "event list \<times> exn option \<Rightarrow> event list" where
  "listar_catch r =
     (case r of
        (tr, None) \<Rightarrow> tr
      | (tr, Some error) \<Rightarrow>
          catch_send 500 (Text [Lit ''Error al obtener las citas del paciente'']) tr)"

definition listar :: "listar_upstream \<Rightarrow> string \<Rightarrow> event list" where
  "listar up dni = listar_catch (listar_try cita_con_doctor up dni)"

definition listar_part_000 :: "listar_upstream \<Rightarrow> string \<Rightarrow> event list" where
  "listar_part_000 up dni = listar_catch (listar_try cita_con_doctor_part_000 up dni)"

section \<open>The availability routes\<close>

text \<open>
  Modelled from the spec: the table \<^verbatim>\<open>Disponibilidad\<close>, whose declaration is not in the
  sources.  It has the columns \<^verbatim>\<open>dia\<close>, \<^verbatim>\<open>hora\<close> and \<^verbatim>\<open>dni_doctor\<close> that the queries
  name; they are taken as text compared character by character, and the rows are
  listed in the order in which a query returns them.
\<close>

record disponibilidad_row =
  row_dia :: string
  row_hora :: string
  dni_doctor :: string

type_synonym disponibilidad_table = "disponibilidad_row list"

datatype disponibilidad_body = Rows "disponibilidad_row list" | Message string

definition Disponibilidad_agregada :: string where
  "Disponibilidad_agregada = ''Disponibilidad agregada con '' @ e_acute @ ''xito''"

definition Disponibilidad_eliminada :: string where
  "Disponibilidad_eliminada = ''Disponibilidad eliminada con '' @ e_acute @ ''xito''"

text \<open>
  In each handler \<open>query_ok\<close> says whether \<^verbatim>\<open>pool.query\<close> returns; when it throws, the
  table is as before.  \<^verbatim>\<open>res.send\<close> and \<^verbatim>\<open>res.json\<close> without a status answer 200.
\<close>

definition disponibilidad_get ::
  "bool \<Rightarrow> disponibilidad_table \<Rightarrow> string \<Rightarrow> nat \<times> disponibilidad_body" where
  "disponibilidad_get query_ok table dni =
     (if query_ok then (200, Rows (filter (\<lambda>r. dni_doctor r = dni) table))
      else (500, Message ''Error al obtener la disponibilidad del doctor''))"

definition disponibilidad_post ::
  "bool \<Rightarrow> disponibilidad_table \<Rightarrow> string \<Rightarrow> string \<Rightarrow> string
     \<Rightarrow> (nat \<times> disponibilidad_body) \<times> disponibilidad_table" where
  "disponibilidad_post query_ok table dni di ho =
     (if query_ok
      then ((200, Message Disponibilidad_agregada),
            table @ [\<lparr>row_dia = di, row_hora = ho, dni_doctor = dni\<rparr>])
      else ((500, Message ''Error al agregar la disponibilidad''), table))"

definition slot_row :: "string \<Rightarrow> string \<Rightarrow> string \<Rightarrow> disponibilidad_row \<Rightarrow> bool" where
  "slot_row dni di ho r = (dni_doctor r = dni \<and> row_dia r = di \<and> row_hora r = ho)"

definition disponibilidad_delete ::
  "bool \<Rightarrow> disponibilidad_table \<Rightarrow> string \<Rightarrow> string \<Rightarrow> string
     \<Rightarrow> (nat \<times> disponibilidad_body) \<times> disponibilidad_table" where
  "disponibilidad_delete query_ok table dni di ho =
     (if query_ok
      then (let rowCount = length (filter (slot_row dni di ho) table);
                table' = filter (\<lambda>r. \<not> slot_row dni di ho r) table
            in if rowCount = 0 then ((404, Message ''Disponibilidad no encontrada''), table')
               else ((200, Message Disponibilidad_eliminada), table'))
      else ((500, Message ''Error al eliminar la disponibilidad''), table))"

text \<open>What axios makes of an answer of these routes: the rows arrive as JSON objects.\<close>

definition row_json :: "disponibilidad_row \<Rightarrow> json" where
  "row_json r =
     JObj [(''dia'', JStr (row_dia r)), (''hora'', JStr (row_hora r)),
           (''dni_doctor'', JStr (dni_doctor r))]"

fun body_json :: "disponibilidad_body \<Rightarrow> json" where
  "body_json (Rows rs) = JArr (map row_json rs)"
| "body_json (Message s) = JStr s"

definition axios_of :: "nat \<times> disponibilidad_body \<Rightarrow> axios_result" where
  "axios_of r =
     (if 200 \<le> fst r \<and> fst r < 300 then Inr (body_json (snd r))
      else Inl (With_response (fst r) (body_json (snd r))))"

section \<open>The booking handler with the availability service\<close>

text \<open>
  \<^verbatim>\<open>DISPONIBILIDAD_SERVICE_URL\<close> is the address of the availability routes above, so
  the deletion call of step 5, \<^verbatim>\<open>DELETE /disponibilidad/:dni\<close> with \<^verbatim>\<open>{ dia, hora }\<close>,
  is for the \<^verbatim>\<open>DELETE\<close> route.  Either the call does not reach the service, and then
  it is rejected without a response and the table is as before; or the route serves
  it on the table, its query returning or throwing, and the handler gets the answer
  of the route.
\<close>

datatype servicio = Inalcanzable | Atiende bool

definition eliminar_servido ::
  "servicio \<Rightarrow> booking \<Rightarrow> disponibilidad_table \<Rightarrow> axios_result \<times> disponibilidad_table" where
  "eliminar_servido s req table =
     (case s of
        Inalcanzable \<Rightarrow> (Inl No_response, table)
      | Atiende query_ok \<Rightarrow>
          (case disponibilidad_delete query_ok table (dniDoctor req) (dia req) (hora req) of
             (answer, table') \<Rightarrow> (axios_of answer, table')))"

text \<open>
  A booking in that setting: the trace of the handler, and the table afterwards, which
  is the table the route leaves when the handler makes the deletion call and the table
  as it was when the handler does not get that far.
\<close>

definition agendar_sistema ::
  "servicio \<Rightarrow> agendar_upstream \<Rightarrow> booking \<Rightarrow> disponibilidad_table
     \<Rightarrow> event list \<times> disponibilidad_table" where
  "agendar_sistema s up req table =
     (case eliminar_servido s req table of
        (answer, table') \<Rightarrow>
          (let tr = agendar (up\<lparr>eliminarResponse := answer\<rparr>) req
           in (tr, if eliminar_request req \<in> set tr then table' else table)))"

section \<open>Vocabulary of the properties\<close>

text \<open>The names of the properties of a JSON object, in their order.\<close>

fun object_keys :: "json \<Rightarrow> string list" where
  "object_keys (JObj kvs) = map fst kvs"
| "object_keys d = []"


text \<open>The requests of a trace that change a store: every request but a \<open>GET\<close>.\<close>

definition mutations ::
  "event list \<Rightarrow> (http_method \<times> template \<times> (string \<times> jsval) list option) list" where
  "mutations tr = filter (\<lambda>(m, url, body). m \<noteq> GET) (requests tr)"

text \<open>
  A lookup finds its subject when the call resolves with a truthy body.  It yields
  not-found when the service answers 404 or when the call resolves with a falsy body.
\<close>

fun existe :: "axios_result \<Rightarrow> bool" where
  "existe (Inr d) = truthy d"
| "existe (Inl error) = False"

fun no_encontrado :: "axios_result \<Rightarrow> bool" where
  "no_encontrado (Inl (With_response status d)) = (status = 404)"
| "no_encontrado (Inl error) = False"
| "no_encontrado (Inr d) = (\<not> truthy d)"

text \<open>
  The scenario of the specification: patient 123 books doctor 456 on Lunes at 09:00:00,
  every service answers, and the doctor has that slot among others.
\<close>

definition escenario :: booking where
  "escenario = \<lparr>dniPaciente = ''123'', dniDoctor = ''456'', dia = ''Lunes'', hora = ''09:00:00''\<rparr>"

definition escenario_table :: disponibilidad_table where
  "escenario_table =
     [\<lparr>row_dia = ''Lunes'', row_hora = ''09:00:00'', dni_doctor = ''456''\<rparr>,
      \<lparr>row_dia = ''Martes'', row_hora = ''10:00:00'', dni_doctor = ''456''\<rparr>,
      \<lparr>row_dia = ''Lunes'', row_hora = ''09:00:00'', dni_doctor = ''789''\<rparr>]"

definition escenario_upstream :: agendar_upstream where
  "escenario_upstream =
     \<lparr>pacienteResponse = Inr (JObj [(''dni'', JStr ''123'')]),
      doctorResponse = Inr (JObj [(''dni'', JStr ''456'')]),
      disponibilidadResponse = axios_of (disponibilidad_get True escenario_table ''456''),
      citaResponse = Inr (JObj [(''id'', JNum 1)]),
      eliminarResponse =
        axios_of (fst (disponibilidad_delete True escenario_table ''456'' ''Lunes'' ''09:00:00''))\<rparr>"

text \<open>The same scenario with the availability list as objects of \<^verbatim>\<open>dia\<close> and \<^verbatim>\<open>hora\<close> only.\<close>

definition escenario_lista :: agendar_upstream where
  "escenario_lista =
     escenario_upstream
       \<lparr>disponibilidadResponse :=
          Inr (JArr [JObj [(''dia'', JStr ''Martes''), (''hora'', JStr ''10:00:00'')],
                     JObj [(''dia'', JStr ''Lunes''), (''hora'', JStr ''09:00:00'')]])\<rparr>"

text \<open>The same scenario with the appointment service out of reach.\<close>

definition escenario_sin_citas :: agendar_upstream where
  "escenario_sin_citas = escenario_upstream\<lparr>citaResponse := Inl No_response\<rparr>"

text \<open>The same scenario with the patient directory answering 503.\<close>

definition escenario_503 :: agendar_upstream where
  "escenario_503 =
     escenario_upstream\<lparr>pacienteResponse := Inl (With_response 503 (JStr ''Service Unavailable''))\<rparr>"

text \<open>The same scenario with a patient directory that answers 200 and an empty body.\<close>

definition escenario_vacio :: agendar_upstream where
  "escenario_vacio = escenario_upstream\<lparr>pacienteResponse := Inr (JStr [])\<rparr>"

text \<open>The same scenario with a doctor directory that answers 404.\<close>

definition escenario_sin_doctor :: agendar_upstream where
  "escenario_sin_doctor =
     escenario_upstream\<lparr>doctorResponse := Inl (With_response 404 (JStr ''Not Found''))\<rparr>"

text \<open>The same scenario with the doctor directory out of reach.\<close>

definition escenario_doctor_caido :: agendar_upstream where
  "escenario_doctor_caido = escenario_upstream\<lparr>doctorResponse := Inl No_response\<rparr>"

text \<open>The same scenario for a doctor whose only slot is on another day.\<close>

definition escenario_ocupado :: agendar_upstream where
  "escenario_ocupado =
     escenario_upstream
       \<lparr>disponibilidadResponse :=
          Inr (JArr [JObj [(''dia'', JStr ''Martes''), (''hora'', JStr ''09:00:00'')]])\<rparr>"

text \<open>
  Cancelling appointment 7, of doctor 456 on Lunes at 09:00:00: the appointment service
  answers 404; and it has the appointment and deletes it, and the availability service is
  out of reach.
\<close>

definition cita_7 :: json where
  "cita_7 =
     JObj [(''id'', JStr ''7''), (''dniPaciente'', JStr ''123''), (''dniDoctor'', JStr ''456''),
           (''dia'', JStr ''Lunes''), (''hora'', JStr ''09:00:00'')]"

definition cancelar_404 :: cancelar_upstream where
  "cancelar_404 =
     \<lparr>obtenerCita = Inl (With_response 404 (JStr ''Not Found'')),
      eliminarCita = Inr (JStr []),
      restaurarDisponibilidad = Inr (JStr Disponibilidad_agregada)\<rparr>"

definition cancelar_sin_disponibilidad :: cancelar_upstream where
  "cancelar_sin_disponibilidad =
     \<lparr>obtenerCita = Inr cita_7,
      eliminarCita = Inr (JStr []),
      restaurarDisponibilidad = Inl No_response\<rparr>"

text \<open>
  Listing for patient 123: two appointments, the doctor of the first is found and the
  lookup of the second is rejected; and no appointment.
\<close>

definition listar_dos :: listar_upstream where
  "listar_dos =
     \<lparr>citasResponse =
        Inr (JArr [cita_7,
                   JObj [(''id'', JStr ''8''), (''dniDoctor'', JStr ''789''),
                         (''dia'', JStr ''Martes''), (''hora'', JStr ''10:00:00'')]]),
      doctorResponses =
        (\<lambda>i. if i = 0
              then Inr (JObj [(''nombres'', JStr ''Luis''), (''apellidos'', JStr ''Perez''),
                              (''especialidad'', JStr ''Cardiologia'')])
              else Inl No_response)\<rparr>"

definition listar_ninguna :: listar_upstream where
  "listar_ninguna = listar_dos\<lparr>citasResponse := Inr (JArr [])\<rparr>"

section \<open>Auxiliary facts\<close>

lemma responses_append: "responses (a @ b) = responses a @ responses b"
  by (induction a rule: responses.induct) simp_all

lemmas agendar_requests =
  paciente_request_def doctor_request_def disponibilidad_request_def cita_request_def
  eliminar_request_def

lemmas agendar_defs = agendar_def agendar_try_def send_def catch_send_def agendar_requests

lemmas cancelar_defs =
  cancelar_def cancelar_try_def cancelar_part_000_def cancelar_try_part_000_def
  send_def catch_send_def restaurar_request_def

lemmas escenario_defs =
  escenario_def escenario_table_def escenario_upstream_def escenario_sin_citas_def
  escenario_503_def escenario_vacio_def escenario_sin_doctor_def escenario_doctor_caido_def
  escenario_ocupado_def escenario_lista_def

lemmas url_defs =
  PACIENTE_SERVICE_URL_def DOCTOR_SERVICE_URL_def DISPONIBILIDAD_SERVICE_URL_def
  CITA_SERVICE_URL_def

lemma existe_Inr: "existe r \<Longrightarrow> \<exists>d. r = Inr d \<and> truthy d"
  by (cases r) simp_all

text \<open>The callback of \<^verbatim>\<open>some\<close> over a list without \<^verbatim>\<open>null\<close>.\<close>

lemma some_slot_objects:
  "JNull \<notin> set ds \<Longrightarrow>
   some_slot di ho ds =
     Inr (list_ex (\<lambda>d. own d ''dia'' = Some (JStr di) \<and> own d ''hora'' = Some (JStr ho)) ds)"
  by (induction ds) (auto simp: slot_matches_def read_prop_def split: bool.splits)

text \<open>
  A booking that gets past the four checks, whatever the answer to its deletion call.
\<close>

lemma agendar_pasos:
  assumes "existe (pacienteResponse up)" and "existe (doctorResponse up)"
    and "disponibilidadResponse up = Inr (JArr ds)" and "JNull \<notin> set ds"
    and "list_ex (\<lambda>d. own d ''dia'' = Some (JStr (dia req))
                     \<and> own d ''hora'' = Some (JStr (hora req))) ds"
    and "citaResponse up = Inr cdata"
  shows "agendar (up\<lparr>eliminarResponse := r\<rparr>) req =
           [paciente_request req, doctor_request req, disponibilidad_request req,
            cita_request req, Send 201 (Text [Lit Cita_agendada]), eliminar_request req]
           @ (case r of Inl error \<Rightarrow> [Uncaught ERR_HTTP_HEADERS_SENT] | Inr edata \<Rightarrow> [])"
proof -
  obtain pdata ddata where
    "pacienteResponse up = Inr pdata" "truthy pdata" "doctorResponse up = Inr ddata" "truthy ddata"
    using assms(1,2) existe_Inr by blast
  with assms(3-6) show ?thesis
    by (simp add: agendar_defs some_slot_objects split: sum.splits)
qed

text \<open>The rows that the query of the deletion matches are the rows equal to the slot.\<close>

lemma slot_row_eq:
  "slot_row dni di ho = (\<lambda>r. r = \<lparr>row_dia = di, row_hora = ho, dni_doctor = dni\<rparr>)"
proof
  fix r
  show "slot_row dni di ho r = (r = \<lparr>row_dia = di, row_hora = ho, dni_doctor = dni\<rparr>)"
    by (cases r) (auto simp: slot_row_def)
qed

lemma disponibilidad_delete_slot:
  assumes "\<lparr>row_dia = di, row_hora = ho, dni_doctor = dni\<rparr> \<in> set table"
  shows "disponibilidad_delete True table dni di ho =
           ((200, Message Disponibilidad_eliminada),
            filter (\<lambda>r. r \<noteq> \<lparr>row_dia = di, row_hora = ho, dni_doctor = dni\<rparr>) table)"
proof -
  have "filter (\<lambda>r. r = \<lparr>row_dia = di, row_hora = ho, dni_doctor = dni\<rparr>) table \<noteq> []"
    using assms by (simp add: filter_empty_conv)
  then show ?thesis
    by (simp add: disponibilidad_delete_def slot_row_eq Let_def)
qed

text \<open>A booking that answered 201 ran all six steps, and only then may have thrown.\<close>

lemma agendar_201:
  assumes "(201, Text [Lit Cita_agendada]) \<in> set (responses (agendar up req))"
  shows "\<exists>post. agendar up req =
           [paciente_request req, doctor_request req, disponibilidad_request req,
            cita_request req, Send 201 (Text [Lit Cita_agendada]), eliminar_request req] @ post
         \<and> (post = [] \<or> post = [Uncaught ERR_HTTP_HEADERS_SENT])"
  using assms
  by (auto simp: agendar_defs Let_def Cita_agendada_def Doctor_no_disponible_def
      split: sum.splits bool.splits if_splits)

lemma agendar_eliminar_irrelevant:
  "responses (agendar (up\<lparr>eliminarResponse := r\<rparr>) req) = responses (agendar up req)"
  by (auto simp: agendar_defs Let_def split: sum.splits bool.splits if_splits)

text \<open>The listing: the callbacks over a list without \<^verbatim>\<open>null\<close>, entry by entry.\<close>

lemma promise_all_entries:
  "JNull \<notin> set cs \<Longrightarrow>
   promise_all (map (\<lambda>(i, cita). cita_entry con_doctor cita (f i)) (enumerate n cs)) =
     Inr (map (\<lambda>(i, cita).
                 case f i of
                   Inl error \<Rightarrow> Sin_doctor cita Error_doctor
                 | Inr doctorData \<Rightarrow>
                     if doctorData = JNull then Sin_doctor cita Error_doctor
                     else con_doctor cita doctorData)
            (enumerate n cs))"
  by (induction cs arbitrary: n) (auto simp: cita_entry_def split: sum.splits)

lemma map_enumerate_nth:
  "map (\<lambda>(i, x). g i x) (enumerate 0 xs) = map (\<lambda>i. g i (xs ! i)) [0..<length xs]"
  by (rule nth_equalityI) (simp_all add: nth_enumerate_eq)

lemma doctor_requests:
  "JNull \<notin> set cs \<Longrightarrow>
   concat (map cita_doctor_request cs) =
     map (\<lambda>cita. Request GET [Lit (DOCTOR_SERVICE_URL @ ''/''), Val (own cita ''dniDoctor'')] None) cs"
  by (induction cs) (auto simp: cita_doctor_request_def)

lemma responses_requests: "responses (map (\<lambda>x. Request m (url x) (body x)) xs) = []"
  by (induction xs) simp_all

lemma listar_try_entries:
  assumes "citasResponse up = Inr (JArr cs)" and "cs \<noteq> []" and "JNull \<notin> set cs"
  shows "listar_catch (listar_try con_doctor up dni) =
     Request GET [Lit (CITA_SERVICE_URL @ ''/paciente/'' @ dni)] None
     # map (\<lambda>cita. Request GET [Lit (DOCTOR_SERVICE_URL @ ''/''), Val (own cita ''dniDoctor'')] None) cs
     @ [Send 200 (Entries (map (\<lambda>i.
                 case doctorResponses up i of
                   Inl error \<Rightarrow> Sin_doctor (cs ! i) Error_doctor
                 | Inr doctorData \<Rightarrow>
                     if doctorData = JNull then Sin_doctor (cs ! i) Error_doctor
                     else con_doctor (cs ! i) doctorData)
            [0..<length cs]))]"
proof -
  have "listar_catch (listar_try con_doctor up dni) =
     Request GET [Lit (CITA_SERVICE_URL @ ''/paciente/'' @ dni)] None
     # map (\<lambda>cita. Request GET [Lit (DOCTOR_SERVICE_URL @ ''/''), Val (own cita ''dniDoctor'')] None) cs
     @ [Send 200 (Entries (map (\<lambda>(i, cita).
                 case doctorResponses up i of
                   Inl error \<Rightarrow> Sin_doctor cita Error_doctor
                 | Inr doctorData \<Rightarrow>
                     if doctorData = JNull then Sin_doctor cita Error_doctor
                     else con_doctor cita doctorData)
            (enumerate 0 cs)))]"
    using assms
    by (simp add: listar_catch_def listar_try_def promise_all_entries send_def
        responses_append doctor_requests responses_requests)
  then show ?thesis
    by (simp only: map_enumerate_nth)
qed

lemma listar_try_vacio:
  assumes "citasResponse up = Inr (JArr [])"
  shows "listar_catch (listar_try con_doctor up dni) =
     [Request GET [Lit (CITA_SERVICE_URL @ ''/paciente/'' @ dni)] None,
      Send 404 (Text [Lit (''No se encontraron citas para el paciente con DNI '' @ dni)])]"
  using assms by (simp add: listar_catch_def listar_try_def send_def)

section \<open>Booking\<close>

text \<open>
  C1, as amended.  For every booking request whose patient lookup and doctor lookup find
  them, whose fetched availability list holds a slot with exactly the requested day
  and time, and whose appointment creation is accepted, the handler answers 201 with
  the message that the appointment was booked, having made exactly one creation
  request, which carries (dniPaciente, dniDoctor, dia, hora), and after the answer it
  makes exactly one deletion request, for (dniDoctor, dia, hora), whatever becomes of
  that request.  When the deletion request is served by the availability
  route with its query succeeding, on a table that holds the slot, the booking leaves
  the table without that slot and with every other row: exactly one slot fewer.
\<close>

theorem agendar_cita_agendada:
  assumes "existe (pacienteResponse up)" and "existe (doctorResponse up)"
    and "disponibilidadResponse up = Inr (JArr ds)" and "JNull \<notin> set ds"
    and "list_ex (\<lambda>d. own d ''dia'' = Some (JStr (dia req))
                     \<and> own d ''hora'' = Some (JStr (hora req))) ds"
    and "citaResponse up = Inr cdata"
    and "\<lparr>row_dia = dia req, row_hora = hora req, dni_doctor = dniDoctor req\<rparr> \<in> set table"
  shows "responses (agendar up req) =
           [(201, Text [Lit (''Cita agendada con '' @ [CHR 0xC3, CHR 0xA9] @ ''xito'')])]
       \<and> mutations (agendar up req) =
           [(POST, [Lit (''http://historiamedica:8080/citas/'' @ dniPaciente req)],
               Some [(''dniPaciente'', Some (JStr (dniPaciente req))),
                     (''dniDoctor'', Some (JStr (dniDoctor req))),
                     (''dia'', Some (JStr (dia req))),
                     (''hora'', Some (JStr (hora req)))]),
            (DELETE, [Lit (''http://doctores:3000/disponibilidad/'' @ dniDoctor req)],
               Some [(''dia'', Some (JStr (dia req))), (''hora'', Some (JStr (hora req)))])]
       \<and> agendar_sistema (Atiende True) up req table =
           ([Request GET [Lit (''http://pacientes:8000/pacientes/'' @ dniPaciente req)] None,
             Request GET [Lit (''http://doctores:3000/doctors/'' @ dniDoctor req)] None,
             Request GET [Lit (''http://doctores:3000/disponibilidad/'' @ dniDoctor req)] None,
             Request POST [Lit (''http://historiamedica:8080/citas/'' @ dniPaciente req)]
               (Some [(''dniPaciente'', Some (JStr (dniPaciente req))),
                      (''dniDoctor'', Some (JStr (dniDoctor req))),
                      (''dia'', Some (JStr (dia req))),
                      (''hora'', Some (JStr (hora req)))]),
             Send 201 (Text [Lit (''Cita agendada con '' @ [CHR 0xC3, CHR 0xA9] @ ''xito'')]),
             Request DELETE [Lit (''http://doctores:3000/disponibilidad/'' @ dniDoctor req)]
               (Some [(''dia'', Some (JStr (dia req))), (''hora'', Some (JStr (hora req)))])],
            filter (\<lambda>r. r \<noteq> \<lparr>row_dia = dia req, row_hora = hora req, dni_doctor = dniDoctor req\<rparr>)
              table)
       \<and> set (snd (agendar_sistema (Atiende True) up req table)) =
           set table - {\<lparr>row_dia = dia req, row_hora = hora req, dni_doctor = dniDoctor req\<rparr>}
       \<and> card (set (snd (agendar_sistema (Atiende True) up req table))) + 1 = card (set table)"
proof -
  let ?slot = "\<lparr>row_dia = dia req, row_hora = hora req, dni_doctor = dniDoctor req\<rparr>"
  note pasos = agendar_pasos [OF assms(1-6)]
  have same: "up\<lparr>eliminarResponse := eliminarResponse up\<rparr> = up"
    by simp
  have tr: "agendar up req =
           [paciente_request req, doctor_request req, disponibilidad_request req,
            cita_request req, Send 201 (Text [Lit Cita_agendada]), eliminar_request req]
           @ (case eliminarResponse up of
                Inl error \<Rightarrow> [Uncaught ERR_HTTP_HEADERS_SENT] | Inr edata \<Rightarrow> [])"
    using pasos [of "eliminarResponse up"] by (simp only: same)
  have r: "responses (agendar up req) =
           [(201, Text [Lit (''Cita agendada con '' @ [CHR 0xC3, CHR 0xA9] @ ''xito'')])]"
    unfolding tr
    by (simp add: agendar_requests Cita_agendada_def e_acute_def split: sum.splits)
  have m: "mutations (agendar up req) =
           [(POST, [Lit (''http://historiamedica:8080/citas/'' @ dniPaciente req)],
               Some [(''dniPaciente'', Some (JStr (dniPaciente req))),
                     (''dniDoctor'', Some (JStr (dniDoctor req))),
                     (''dia'', Some (JStr (dia req))),
                     (''hora'', Some (JStr (hora req)))]),
            (DELETE, [Lit (''http://doctores:3000/disponibilidad/'' @ dniDoctor req)],
               Some [(''dia'', Some (JStr (dia req))), (''hora'', Some (JStr (hora req)))])]"
    unfolding tr
    by (simp add: agendar_requests mutations_def citaData_def url_defs split: sum.splits)
  have served: "eliminar_servido (Atiende True) req table =
      (Inr (JStr Disponibilidad_eliminada), filter (\<lambda>r. r \<noteq> ?slot) table)"
    using disponibilidad_delete_slot [OF assms(7)]
    by (simp add: eliminar_servido_def axios_of_def)
  have s: "agendar_sistema (Atiende True) up req table =
           ([Request GET [Lit (''http://pacientes:8000/pacientes/'' @ dniPaciente req)] None,
             Request GET [Lit (''http://doctores:3000/doctors/'' @ dniDoctor req)] None,
             Request GET [Lit (''http://doctores:3000/disponibilidad/'' @ dniDoctor req)] None,
             Request POST [Lit (''http://historiamedica:8080/citas/'' @ dniPaciente req)]
               (Some [(''dniPaciente'', Some (JStr (dniPaciente req))),
                      (''dniDoctor'', Some (JStr (dniDoctor req))),
                      (''dia'', Some (JStr (dia req))),
                      (''hora'', Some (JStr (hora req)))]),
             Send 201 (Text [Lit (''Cita agendada con '' @ [CHR 0xC3, CHR 0xA9] @ ''xito'')]),
             Request DELETE [Lit (''http://doctores:3000/disponibilidad/'' @ dniDoctor req)]
               (Some [(''dia'', Some (JStr (dia req))), (''hora'', Some (JStr (hora req)))])],
            filter (\<lambda>r. r \<noteq> ?slot) table)"
    unfolding agendar_sistema_def served
    by (simp add: pasos agendar_requests citaData_def url_defs Cita_agendada_def e_acute_def)
  have st: "set (snd (agendar_sistema (Atiende True) up req table)) = set table - {?slot}"
    unfolding s by auto
  have "Suc (card (set table - {?slot})) = card (set table)"
    using assms(7) by (intro card_Suc_Diff1) simp_all
  then have c: "card (set (snd (agendar_sistema (Atiende True) up req table))) + 1
      = card (set table)"
    unfolding st by simp
  from r m s st c show ?thesis by blast
qed

text \<open>
  The theorem in the scenario of the specification, the availability list being
  objects of \<^verbatim>\<open>dia\<close> and \<^verbatim>\<open>hora\<close>: the booking is answered 201 and, of the three rows
  of the table, the two that are not the booked slot remain.
\<close>

theorem agendar_cita_agendada_witness:
  "existe (pacienteResponse escenario_lista) \<and> existe (doctorResponse escenario_lista)
   \<and> \<lparr>row_dia = dia escenario, row_hora = hora escenario, dni_doctor = dniDoctor escenario\<rparr>
       \<in> set escenario_table
   \<and> responses (agendar escenario_lista escenario) =
       [(201, Text [Lit (''Cita agendada con '' @ [CHR 0xC3, CHR 0xA9] @ ''xito'')])]
   \<and> snd (agendar_sistema (Atiende True) escenario_lista escenario escenario_table) =
       [\<lparr>row_dia = ''Martes'', row_hora = ''10:00:00'', dni_doctor = ''456''\<rparr>,
        \<lparr>row_dia = ''Lunes'', row_hora = ''09:00:00'', dni_doctor = ''789''\<rparr>]
   \<and> card (set (snd (agendar_sistema (Atiende True) escenario_lista escenario escenario_table)))
       + 1 = card (set escenario_table)"
proof -
  let ?ds = "[JObj [(''dia'', JStr ''Martes''), (''hora'', JStr ''10:00:00'')],
              JObj [(''dia'', JStr ''Lunes''), (''hora'', JStr ''09:00:00'')]]"
  let ?slot = "\<lparr>row_dia = dia escenario, row_hora = hora escenario,
                 dni_doctor = dniDoctor escenario\<rparr>"
  have h1: "existe (pacienteResponse escenario_lista)"
    and h2: "existe (doctorResponse escenario_lista)"
    and h3: "disponibilidadResponse escenario_lista = Inr (JArr ?ds)"
    and h4: "JNull \<notin> set ?ds"
    and h5: "list_ex (\<lambda>d. own d ''dia'' = Some (JStr (dia escenario))
                     \<and> own d ''hora'' = Some (JStr (hora escenario))) ?ds"
    and h6: "citaResponse escenario_lista = Inr (JObj [(''id'', JNum 1)])"
    and h7: "?slot \<in> set escenario_table"
    by (simp_all add: escenario_defs)
  note inst = agendar_cita_agendada [OF h1 h2 h3 h4 h5 h6 h7]
  from inst have r: "responses (agendar escenario_lista escenario) =
       [(201, Text [Lit (''Cita agendada con '' @ [CHR 0xC3, CHR 0xA9] @ ''xito'')])]"
    by blast
  from inst have "snd (agendar_sistema (Atiende True) escenario_lista escenario escenario_table) =
       filter (\<lambda>r. r \<noteq> ?slot) escenario_table"
    by simp
  then have t: "snd (agendar_sistema (Atiende True) escenario_lista escenario escenario_table) =
       [\<lparr>row_dia = ''Martes'', row_hora = ''10:00:00'', dni_doctor = ''456''\<rparr>,
        \<lparr>row_dia = ''Lunes'', row_hora = ''09:00:00'', dni_doctor = ''789''\<rparr>]"
    by (simp add: escenario_defs)
  from inst have c:
    "card (set (snd (agendar_sistema (Atiende True) escenario_lista escenario escenario_table)))
       + 1 = card (set escenario_table)"
    by blast
  from h1 h2 h7 r t c show ?thesis by blast
qed

text \<open>
  C1 as stated fails in the scenario of the specification in two ways.  Where the
  appointment service does not accept the creation, the caller gets 500, no deletion is
  requested and the table is as before.  Where the creation is accepted and the query
  of the deletion route throws, the caller has its 201 and the table still holds the
  slot.
\<close>

theorem agendar_cita_rechazada:
  "existe (pacienteResponse escenario_sin_citas) \<and> existe (doctorResponse escenario_sin_citas)
   \<and> disponibilidadResponse escenario_sin_citas =
       Inr (JArr [JObj [(''dia'', JStr ''Lunes''), (''hora'', JStr ''09:00:00''),
                        (''dni_doctor'', JStr ''456'')],
                  JObj [(''dia'', JStr ''Martes''), (''hora'', JStr ''10:00:00''),
                        (''dni_doctor'', JStr ''456'')]])
   \<and> agendar_sistema (Atiende True) escenario_sin_citas escenario escenario_table =
       ([Request GET [Lit ''http://pacientes:8000/pacientes/123''] None,
         Request GET [Lit ''http://doctores:3000/doctors/456''] None,
         Request GET [Lit ''http://doctores:3000/disponibilidad/456''] None,
         Request POST [Lit ''http://historiamedica:8080/citas/123'']
           (Some [(''dniPaciente'', Some (JStr ''123'')), (''dniDoctor'', Some (JStr ''456'')),
                  (''dia'', Some (JStr ''Lunes'')), (''hora'', Some (JStr ''09:00:00''))]),
         Send 500 (Text [Lit ''Error al agendar la cita''])],
        escenario_table)
   \<and> citaResponse escenario_upstream = Inr (JObj [(''id'', JNum 1)])
   \<and> agendar_sistema (Atiende False) escenario_upstream escenario escenario_table =
       ([Request GET [Lit ''http://pacientes:8000/pacientes/123''] None,
         Request GET [Lit ''http://doctores:3000/doctors/456''] None,
         Request GET [Lit ''http://doctores:3000/disponibilidad/456''] None,
         Request POST [Lit ''http://historiamedica:8080/citas/123'']
           (Some [(''dniPaciente'', Some (JStr ''123'')), (''dniDoctor'', Some (JStr ''456'')),
                  (''dia'', Some (JStr ''Lunes'')), (''hora'', Some (JStr ''09:00:00''))]),
         Send 201 (Text [Lit (''Cita agendada con '' @ [CHR 0xC3, CHR 0xA9] @ ''xito'')]),
         Request DELETE [Lit ''http://doctores:3000/disponibilidad/456'']
           (Some [(''dia'', Some (JStr ''Lunes'')), (''hora'', Some (JStr ''09:00:00''))]),
         Uncaught ERR_HTTP_HEADERS_SENT],
        escenario_table)
   \<and> \<lparr>row_dia = ''Lunes'', row_hora = ''09:00:00'', dni_doctor = ''456''\<rparr> \<in> set escenario_table"
  by (simp add: escenario_defs agendar_sistema_def eliminar_servido_def agendar_defs
      disponibilidad_delete_def disponibilidad_get_def axios_of_def row_json_def
      slot_matches_def read_prop_def citaData_def url_defs Cita_agendada_def e_acute_def)

text \<open>
  C2.  In every booking that answers 201 with the success message, that answer is sent
  before the request that deletes the slot is made, nothing is sent after it, and
  whatever the outcome of the deletion the responses the caller receives are the same.
\<close>

theorem agendar_respuesta_antes_de_eliminar:
  "((201, Text [Lit Cita_agendada]) \<in> set (responses (agendar up req)) \<longrightarrow>
      (\<exists>pre post. agendar up req =
           pre @ [Send 201 (Text [Lit Cita_agendada]), eliminar_request req] @ post
         \<and> eliminar_request req \<notin> set pre \<and> responses pre = []
         \<and> requests post = [] \<and> responses post = []))
   \<and> responses (agendar (up\<lparr>eliminarResponse := r\<rparr>) req) = responses (agendar up req)"
proof (intro conjI impI)
  assume "(201, Text [Lit Cita_agendada]) \<in> set (responses (agendar up req))"
  then obtain post where tr: "agendar up req =
           [paciente_request req, doctor_request req, disponibilidad_request req,
            cita_request req, Send 201 (Text [Lit Cita_agendada]), eliminar_request req] @ post"
      and post: "post = [] \<or> post = [Uncaught ERR_HTTP_HEADERS_SENT]"
    using agendar_201 by blast
  let ?pre = "[paciente_request req, doctor_request req, disponibilidad_request req,
            cita_request req]"
  have "agendar up req = ?pre @ [Send 201 (Text [Lit Cita_agendada]), eliminar_request req] @ post"
    using tr by simp
  moreover have "eliminar_request req \<notin> set ?pre" by (simp add: agendar_requests)
  moreover have "responses ?pre = []" by (simp add: agendar_requests)
  moreover have "requests post = [] \<and> responses post = []" using post by auto
  ultimately show "\<exists>pre post. agendar up req =
           pre @ [Send 201 (Text [Lit Cita_agendada]), eliminar_request req] @ post
         \<and> eliminar_request req \<notin> set pre \<and> responses pre = []
         \<and> requests post = [] \<and> responses post = []"
    by blast
next
  show "responses (agendar (up\<lparr>eliminarResponse := r\<rparr>) req) = responses (agendar up req)"
    by (rule agendar_eliminar_irrelevant)
qed

text \<open>
  The theorem in the scenario: the booking answers 201, so the answer precedes the
  deletion request; and with the availability service out of reach for the deletion the
  caller still receives the 201 and nothing else.
\<close>

theorem agendar_respuesta_antes_de_eliminar_witness:
  "(201, Text [Lit Cita_agendada]) \<in> set (responses (agendar escenario_upstream escenario))
   \<and> (\<exists>pre post. agendar escenario_upstream escenario =
           pre @ [Send 201 (Text [Lit Cita_agendada]), eliminar_request escenario] @ post
         \<and> eliminar_request escenario \<notin> set pre \<and> responses pre = []
         \<and> requests post = [] \<and> responses post = [])
   \<and> responses (agendar (escenario_upstream\<lparr>eliminarResponse := Inl No_response\<rparr>) escenario) =
       [(201, Text [Lit Cita_agendada])]"
proof -
  have r: "responses (agendar escenario_upstream escenario) = [(201, Text [Lit Cita_agendada])]"
    by (simp add: escenario_defs agendar_defs slot_row_def axios_of_def disponibilidad_get_def
        disponibilidad_delete_def row_json_def slot_matches_def read_prop_def)
  then have h: "(201, Text [Lit Cita_agendada])
      \<in> set (responses (agendar escenario_upstream escenario))"
    by simp
  note inst = agendar_respuesta_antes_de_eliminar
    [of escenario_upstream escenario "Inl No_response"]
  from inst h have 1: "\<exists>pre post. agendar escenario_upstream escenario =
           pre @ [Send 201 (Text [Lit Cita_agendada]), eliminar_request escenario] @ post
         \<and> eliminar_request escenario \<notin> set pre \<and> responses pre = []
         \<and> requests post = [] \<and> responses post = []"
    by blast
  from inst have "responses (agendar (escenario_upstream\<lparr>eliminarResponse := Inl No_response\<rparr>)
      escenario) = responses (agendar escenario_upstream escenario)"
    by blast
  with r have 2: "responses (agendar (escenario_upstream\<lparr>eliminarResponse := Inl No_response\<rparr>)
      escenario) = [(201, Text [Lit Cita_agendada])]"
    by simp
  from h 1 2 show ?thesis by blast
qed

text \<open>
  C3.  For every booking request whose patient lookup yields not-found, the handler
  answers 404 'Paciente no encontrado', and the one request it has made is the patient
  lookup: no appointment is created and nothing is asked of the availability store.
\<close>

theorem agendar_paciente_no_encontrado:
  assumes "no_encontrado (pacienteResponse up)"
  shows "responses (agendar up req) = [(404, Text [Lit ''Paciente no encontrado''])]
       \<and> requests (agendar up req) =
           [(GET, [Lit (PACIENTE_SERVICE_URL @ ''/'' @ dniPaciente req)], None)]
       \<and> mutations (agendar up req) = []"
proof (cases "pacienteResponse up")
  case (Inl error)
  with assms obtain d where "error = With_response 404 d"
    by (cases error) auto
  with Inl show ?thesis
    by (simp add: agendar_defs mutations_def)
next
  case (Inr d)
  with assms show ?thesis
    by (simp add: agendar_defs mutations_def)
qed

text \<open>The theorem for a patient directory that answers 404 in the scenario.\<close>

theorem agendar_paciente_no_encontrado_witness:
  "no_encontrado
     (pacienteResponse
        (escenario_upstream\<lparr>pacienteResponse := Inl (With_response 404 (JStr ''Not Found''))\<rparr>))
   \<and> responses
       (agendar
          (escenario_upstream\<lparr>pacienteResponse := Inl (With_response 404 (JStr ''Not Found''))\<rparr>)
          escenario) =
       [(404, Text [Lit ''Paciente no encontrado''])]
   \<and> mutations
       (agendar
          (escenario_upstream\<lparr>pacienteResponse := Inl (With_response 404 (JStr ''Not Found''))\<rparr>)
          escenario) = []"
proof -
  let ?up = "escenario_upstream\<lparr>pacienteResponse := Inl (With_response 404 (JStr ''Not Found''))\<rparr>"
  have h: "no_encontrado (pacienteResponse ?up)"
    by simp
  from agendar_paciente_no_encontrado [OF h, of escenario] h show ?thesis
    by blast
qed

text \<open>
  C4.  For every booking request whose patient and doctor are found and whose doctor's
  availability list holds no slot with the requested day and time, the handler answers
  400 with the message that the doctor is not available, and requests neither the
  creation of an appointment nor the deletion of a slot.
\<close>

theorem agendar_no_disponible:
  assumes "existe (pacienteResponse up)" and "existe (doctorResponse up)"
    and "disponibilidadResponse up = Inr (JArr ds)" and "JNull \<notin> set ds"
    and "\<not> list_ex (\<lambda>d. own d ''dia'' = Some (JStr (dia req))
                        \<and> own d ''hora'' = Some (JStr (hora req))) ds"
  shows "agendar up req =
           [paciente_request req, doctor_request req, disponibilidad_request req,
            Send 400 (Text [Lit Doctor_no_disponible])]
       \<and> responses (agendar up req) = [(400, Text [Lit Doctor_no_disponible])]
       \<and> mutations (agendar up req) = []"
proof -
  obtain pdata ddata where
    "pacienteResponse up = Inr pdata" "truthy pdata" "doctorResponse up = Inr ddata" "truthy ddata"
    using assms(1,2) existe_Inr by blast
  with assms(3-5) show ?thesis
    by (simp add: agendar_defs mutations_def some_slot_objects)
qed

text \<open>The theorem for a doctor whose only slot is on Martes, in the scenario.\<close>

theorem agendar_no_disponible_witness:
  "existe (pacienteResponse escenario_ocupado) \<and> existe (doctorResponse escenario_ocupado)
   \<and> disponibilidadResponse escenario_ocupado =
       Inr (JArr [JObj [(''dia'', JStr ''Martes''), (''hora'', JStr ''09:00:00'')]])
   \<and> responses (agendar escenario_ocupado escenario) = [(400, Text [Lit Doctor_no_disponible])]
   \<and> mutations (agendar escenario_ocupado escenario) = []"
proof -
  let ?ds = "[JObj [(''dia'', JStr ''Martes''), (''hora'', JStr ''09:00:00'')]]"
  have h1: "existe (pacienteResponse escenario_ocupado)"
    and h2: "existe (doctorResponse escenario_ocupado)"
    and h3: "disponibilidadResponse escenario_ocupado = Inr (JArr ?ds)"
    and h4: "JNull \<notin> set ?ds"
    and h5: "\<not> list_ex (\<lambda>d. own d ''dia'' = Some (JStr (dia escenario))
                        \<and> own d ''hora'' = Some (JStr (hora escenario))) ?ds"
    by (simp_all add: escenario_defs)
  from agendar_no_disponible [OF h1 h2 h3 h4 h5] h1 h2 h3 show ?thesis
    by blast
qed

section \<open>Cancelling\<close>

text \<open>
  C5.  A cancellation of an unknown appointment is to answer 404 and to request neither
  a deletion nor an insertion.  The handler of AgendarCita/routes/citas.js does not:
  when the appointment service answers the fetch of appointment 7 with 404, it
  requests nothing further but answers 500 'Error al cancelar la cita'.  The handler
  of the second copy answers the same fetch with 404, relaying the status and the body
  of the service.
\<close>

theorem cancelar_404_responde_500:
  "obtenerCita cancelar_404 = Inl (With_response 404 (JStr ''Not Found''))
   \<and> cancelar cancelar_404 ''7'' =
       [Request GET [Lit ''http://historiamedica:8080/citas/cita/7''] None,
        Send 500 (Text [Lit ''Error al cancelar la cita''])]
   \<and> cancelar_part_000 cancelar_404 ''7'' =
       [Request GET [Lit ''http://historiamedica:8080/citas/7''] None,
        Send 404 (Data (JStr ''Not Found''))]"
  by (simp add: cancelar_404_def cancelar_defs url_defs)

text \<open>
  C6.  For every cancellation in which the appointment was fetched and deleted and the
  insertion of the slot is then rejected, the caller receives a single response, 500
  with the message that the availability could not be restored, and the requests made
  are the fetch, the deletion and one insertion: no appointment is created again and
  the insertion is not repeated.  This holds in both copies; in the first the handler
  then goes on to its second \<^verbatim>\<open>send\<close>, which throws, and ends with an exception that
  nothing catches.
\<close>

theorem cancelar_restauracion_fallida:
  assumes "obtenerCita up = Inr cita" and "truthy cita"
    and "eliminarCita up = Inr ddata"
    and "restaurarDisponibilidad up = Inl error"
  shows "cancelar up idCita =
           [Request GET [Lit (''http://historiamedica:8080/citas/cita/'' @ idCita)] None,
            Request DELETE [Lit (''http://historiamedica:8080/citas/cita/'' @ idCita)] None,
            Request POST [Lit ''http://doctores:3000/disponibilidad/'', Val (own cita ''dniDoctor'')]
              (Some [(''dia'', own cita ''dia''), (''hora'', own cita ''hora'')]),
            Send 500
              (Text [Lit ''Error restarurando la disponibilidad para el doctor '',
                     Val (own cita ''dniDoctor''), Lit '' en '', Val (own cita ''dia''),
                     Lit '' a las '', Val (own cita ''hora'')]),
            Uncaught ERR_HTTP_HEADERS_SENT]
       \<and> responses (cancelar up idCita) =
           [(500, Text [Lit ''Error restarurando la disponibilidad para el doctor '',
                        Val (own cita ''dniDoctor''), Lit '' en '', Val (own cita ''dia''),
                        Lit '' a las '', Val (own cita ''hora'')])]
       \<and> requests (cancelar up idCita) =
           [(GET, [Lit (''http://historiamedica:8080/citas/cita/'' @ idCita)], None),
            (DELETE, [Lit (''http://historiamedica:8080/citas/cita/'' @ idCita)], None),
            (POST, [Lit ''http://doctores:3000/disponibilidad/'', Val (own cita ''dniDoctor'')],
               Some [(''dia'', own cita ''dia''), (''hora'', own cita ''hora'')])]
       \<and> cancelar_part_000 up idCita =
           [Request GET [Lit (''http://historiamedica:8080/citas/'' @ idCita)] None,
            Request DELETE [Lit (''http://historiamedica:8080/citas/'' @ idCita)] None,
            Request POST [Lit ''http://doctores:3000/disponibilidad/'', Val (own cita ''dniDoctor'')]
              (Some [(''dia'', own cita ''dia''), (''hora'', own cita ''hora'')]),
            Send 500
              (Text [Lit ''Error al restaurar la disponibilidad del doctor '',
                     Val (own cita ''dniDoctor'')])]
       \<and> responses (cancelar_part_000 up idCita) =
           [(500, Text [Lit ''Error al restaurar la disponibilidad del doctor '',
                        Val (own cita ''dniDoctor'')])]
       \<and> requests (cancelar_part_000 up idCita) =
           [(GET, [Lit (''http://historiamedica:8080/citas/'' @ idCita)], None),
            (DELETE, [Lit (''http://historiamedica:8080/citas/'' @ idCita)], None),
            (POST, [Lit ''http://doctores:3000/disponibilidad/'', Val (own cita ''dniDoctor'')],
               Some [(''dia'', own cita ''dia''), (''hora'', own cita ''hora'')])]"
proof -
  have first: "cancelar up idCita =
           [Request GET [Lit (''http://historiamedica:8080/citas/cita/'' @ idCita)] None,
            Request DELETE [Lit (''http://historiamedica:8080/citas/cita/'' @ idCita)] None,
            Request POST [Lit ''http://doctores:3000/disponibilidad/'', Val (own cita ''dniDoctor'')]
              (Some [(''dia'', own cita ''dia''), (''hora'', own cita ''hora'')]),
            Send 500
              (Text [Lit ''Error restarurando la disponibilidad para el doctor '',
                     Val (own cita ''dniDoctor''), Lit '' en '', Val (own cita ''dia''),
                     Lit '' a las '', Val (own cita ''hora'')]),
            Uncaught ERR_HTTP_HEADERS_SENT]"
    using assms by (simp add: cancelar_defs url_defs Error_restarurando_def)
  have second: "cancelar_part_000 up idCita =
           [Request GET [Lit (''http://historiamedica:8080/citas/'' @ idCita)] None,
            Request DELETE [Lit (''http://historiamedica:8080/citas/'' @ idCita)] None,
            Request POST [Lit ''http://doctores:3000/disponibilidad/'', Val (own cita ''dniDoctor'')]
              (Some [(''dia'', own cita ''dia''), (''hora'', own cita ''hora'')]),
            Send 500
              (Text [Lit ''Error al restaurar la disponibilidad del doctor '',
                     Val (own cita ''dniDoctor'')])]"
    using assms by (simp add: cancelar_defs url_defs)
  show ?thesis
    unfolding first second by simp
qed

text \<open>The theorem for appointment 7 with the availability service out of reach.\<close>

theorem cancelar_restauracion_fallida_witness:
  "obtenerCita cancelar_sin_disponibilidad = Inr cita_7 \<and> truthy cita_7
   \<and> restaurarDisponibilidad cancelar_sin_disponibilidad = Inl No_response
   \<and> responses (cancelar cancelar_sin_disponibilidad ''7'') =
       [(500, Text [Lit ''Error restarurando la disponibilidad para el doctor '',
                    Val (Some (JStr ''456'')), Lit '' en '', Val (Some (JStr ''Lunes'')),
                    Lit '' a las '', Val (Some (JStr ''09:00:00''))])]
   \<and> responses (cancelar_part_000 cancelar_sin_disponibilidad ''7'') =
       [(500, Text [Lit ''Error al restaurar la disponibilidad del doctor '',
                    Val (Some (JStr ''456''))])]"
proof -
  have h1: "obtenerCita cancelar_sin_disponibilidad = Inr cita_7" and h2: "truthy cita_7"
    and h3: "eliminarCita cancelar_sin_disponibilidad = Inr (JStr [])"
    and h4: "restaurarDisponibilidad cancelar_sin_disponibilidad = Inl No_response"
    by (simp_all add: cancelar_sin_disponibilidad_def cita_7_def)
  have own7: "own cita_7 ''dniDoctor'' = Some (JStr ''456'')"
    "own cita_7 ''dia'' = Some (JStr ''Lunes'')" "own cita_7 ''hora'' = Some (JStr ''09:00:00'')"
    by (simp_all add: cita_7_def)
  note inst = cancelar_restauracion_fallida [OF h1 h2 h3 h4, of "''7''"]
  from inst have "responses (cancelar cancelar_sin_disponibilidad ''7'') =
       [(500, Text [Lit ''Error restarurando la disponibilidad para el doctor '',
                    Val (own cita_7 ''dniDoctor''), Lit '' en '', Val (own cita_7 ''dia''),
                    Lit '' a las '', Val (own cita_7 ''hora'')])]"
    and "responses (cancelar_part_000 cancelar_sin_disponibilidad ''7'') =
       [(500, Text [Lit ''Error al restaurar la disponibilidad del doctor '',
                    Val (own cita_7 ''dniDoctor'')])]"
    by blast+
  then have r: "responses (cancelar cancelar_sin_disponibilidad ''7'') =
       [(500, Text [Lit ''Error restarurando la disponibilidad para el doctor '',
                    Val (Some (JStr ''456'')), Lit '' en '', Val (Some (JStr ''Lunes'')),
                    Lit '' a las '', Val (Some (JStr ''09:00:00''))])]"
    and r': "responses (cancelar_part_000 cancelar_sin_disponibilidad ''7'') =
       [(500, Text [Lit ''Error al restaurar la disponibilidad del doctor '',
                    Val (Some (JStr ''456''))])]"
    by (simp_all only: own7)
  from h1 h2 h4 r r' show ?thesis by blast
qed

section \<open>Failures of the verification calls\<close>

text \<open>
  C7, as amended.  For every booking request in which the patient lookup, or after a
  patient was found the doctor lookup, is rejected with anything but a 404, the handler
  answers with the message of a failed verification and makes no further request.  The
  status is the one the service answered with, and 500 when the call got no response
  or carried no status.
\<close>

theorem agendar_error_de_verificacion:
  "(pacienteResponse up = Inl error \<and> statusCode error \<noteq> 404 \<longrightarrow>
      agendar up req =
        [paciente_request req,
         Send (statusCode error) (Text [Lit ''Error al verificar el Paciente''])])
   \<and> (existe (pacienteResponse up) \<and> doctorResponse up = Inl error
        \<and> statusCode error \<noteq> 404 \<longrightarrow>
      agendar up req =
        [paciente_request req, doctor_request req,
         Send (statusCode error) (Text [Lit ''Error al verificar el doctor''])])
   \<and> statusCode No_response = 500 \<and> statusCode Setup_error = 500
   \<and> statusCode (With_response 0 d) = 500
   \<and> (0 < status \<longrightarrow> statusCode (With_response status d) = status)"
proof -
  have "existe (pacienteResponse up) \<Longrightarrow> doctorResponse up = Inl error \<Longrightarrow>
      statusCode error \<noteq> 404 \<Longrightarrow>
      agendar up req =
        [paciente_request req, doctor_request req,
         Send (statusCode error) (Text [Lit ''Error al verificar el doctor''])]"
    using existe_Inr [of "pacienteResponse up"] by (auto simp: agendar_defs)
  then show ?thesis
    by (auto simp: agendar_defs)
qed

text \<open>
  The theorem in the scenario, with the doctor directory out of reach (500) and with
  the patient directory answering 503 (503).
\<close>

theorem agendar_error_de_verificacion_witness:
  "existe (pacienteResponse escenario_doctor_caido)
   \<and> doctorResponse escenario_doctor_caido = Inl No_response
   \<and> statusCode No_response \<noteq> 404
   \<and> agendar escenario_doctor_caido escenario =
       [paciente_request escenario, doctor_request escenario,
        Send 500 (Text [Lit ''Error al verificar el doctor''])]"
proof -
  have h1: "existe (pacienteResponse escenario_doctor_caido)"
    and h2: "doctorResponse escenario_doctor_caido = Inl No_response"
    and h3: "statusCode No_response \<noteq> 404"
    by (simp_all add: escenario_defs)
  note inst = agendar_error_de_verificacion
    [where up = escenario_doctor_caido and error = No_response and req = escenario]
  from inst h1 h2 h3 have "agendar escenario_doctor_caido escenario =
       [paciente_request escenario, doctor_request escenario,
        Send (statusCode No_response) (Text [Lit ''Error al verificar el doctor''])]"
    by blast
  moreover from inst have "statusCode No_response = 500"
    by blast
  ultimately have "agendar escenario_doctor_caido escenario =
       [paciente_request escenario, doctor_request escenario,
        Send 500 (Text [Lit ''Error al verificar el doctor''])]"
    by simp
  with h1 h2 h3 show ?thesis by blast
qed

text \<open>
  C7 as stated fails where the patient directory answers with a status that is neither
  a success nor 404: the caller gets that status, here 503, not 500.
\<close>

theorem agendar_503:
  "pacienteResponse escenario_503 = Inl (With_response 503 (JStr ''Service Unavailable''))
   \<and> agendar escenario_503 escenario =
       [paciente_request escenario,
        Send 503 (Text [Lit ''Error al verificar el Paciente''])]"
  by (simp add: escenario_defs agendar_defs)

section \<open>Listing\<close>

text \<open>
  C8.  When the fetched list of appointments is empty, the listing answers 404.  When
  it holds N appointments, the listing looks up the doctor of each, by the
  \<^verbatim>\<open>dniDoctor\<close> of the appointment and in the order of the list, and answers 200 with
  N entries, the entry at each index made from the appointment at that index: with the
  \<^verbatim>\<open>nombres\<close>, \<^verbatim>\<open>apellidos\<close> and \<^verbatim>\<open>especialidad\<close> of the doctor when the lookup resolved
  with a body, and otherwise the appointment itself with the string
  'Error al obtener los datos del doctor' as its \<^verbatim>\<open>doctor\<close>.  This holds in both
  copies, the second adding the \<^verbatim>\<open>id\<close> of the appointment to an entry.
\<close>

theorem listar_citas_con_doctor:
  "(citasResponse up = Inr (JArr []) \<longrightarrow>
      listar up dni =
        [Request GET [Lit (''http://historiamedica:8080/citas/paciente/'' @ dni)] None,
         Send 404 (Text [Lit (''No se encontraron citas para el paciente con DNI '' @ dni)])]
    \<and> listar_part_000 up dni =
        [Request GET [Lit (''http://historiamedica:8080/citas/paciente/'' @ dni)] None,
         Send 404 (Text [Lit (''No se encontraron citas para el paciente con DNI '' @ dni)])])
   \<and> (citasResponse up = Inr (JArr cs) \<and> cs \<noteq> [] \<and> JNull \<notin> set cs \<longrightarrow>
      listar up dni =
        Request GET [Lit (''http://historiamedica:8080/citas/paciente/'' @ dni)] None
        # map (\<lambda>cita. Request GET [Lit ''http://doctores:3000/doctors/'',
                                     Val (own cita ''dniDoctor'')] None) cs
        @ [Send 200 (Entries (map (\<lambda>i.
            case doctorResponses up i of
              Inl error \<Rightarrow> Sin_doctor (cs ! i) ''Error al obtener los datos del doctor''
            | Inr doctorData \<Rightarrow>
                if doctorData = JNull
                then Sin_doctor (cs ! i) ''Error al obtener los datos del doctor''
                else Con_doctor
                       [(''fecha'', own (cs ! i) ''dia''), (''hora'', own (cs ! i) ''hora'')]
                       [(''nombres'', own doctorData ''nombres''),
                        (''apellidos'', own doctorData ''apellidos''),
                        (''especialidad'', own doctorData ''especialidad'')])
          [0..<length cs]))]
    \<and> listar_part_000 up dni =
        Request GET [Lit (''http://historiamedica:8080/citas/paciente/'' @ dni)] None
        # map (\<lambda>cita. Request GET [Lit ''http://doctores:3000/doctors/'',
                                     Val (own cita ''dniDoctor'')] None) cs
        @ [Send 200 (Entries (map (\<lambda>i.
            case doctorResponses up i of
              Inl error \<Rightarrow> Sin_doctor (cs ! i) ''Error al obtener los datos del doctor''
            | Inr doctorData \<Rightarrow>
                if doctorData = JNull
                then Sin_doctor (cs ! i) ''Error al obtener los datos del doctor''
                else Con_doctor
                       [(''id'', own (cs ! i) ''id''), (''fecha'', own (cs ! i) ''dia''),
                        (''hora'', own (cs ! i) ''hora'')]
                       [(''nombres'', own doctorData ''nombres''),
                        (''apellidos'', own doctorData ''apellidos''),
                        (''especialidad'', own doctorData ''especialidad'')])
          [0..<length cs]))])"
  by (auto simp: listar_def listar_part_000_def listar_try_vacio listar_try_entries
      cita_con_doctor_def cita_con_doctor_part_000_def doctor_fields_def Error_doctor_def
      url_defs split: sum.splits)

text \<open>
  The theorem for patient 123: with two appointments, the doctor of the first found and
  the lookup for the second rejected, both doctors are looked up and the listing has
  the two entries in that order; with none it answers 404.
\<close>

theorem listar_citas_con_doctor_witness:
  "citasResponse listar_ninguna = Inr (JArr [])
   \<and> listar listar_ninguna ''123'' =
       [Request GET [Lit ''http://historiamedica:8080/citas/paciente/123''] None,
        Send 404 (Text [Lit ''No se encontraron citas para el paciente con DNI 123''])]
   \<and> listar listar_dos ''123'' =
       [Request GET [Lit ''http://historiamedica:8080/citas/paciente/123''] None,
        Request GET [Lit ''http://doctores:3000/doctors/'', Val (Some (JStr ''456''))] None,
        Request GET [Lit ''http://doctores:3000/doctors/'', Val (Some (JStr ''789''))] None,
        Send 200 (Entries
          [Con_doctor [(''fecha'', Some (JStr ''Lunes'')), (''hora'', Some (JStr ''09:00:00''))]
             [(''nombres'', Some (JStr ''Luis'')), (''apellidos'', Some (JStr ''Perez'')),
              (''especialidad'', Some (JStr ''Cardiologia''))],
           Sin_doctor
             (JObj [(''id'', JStr ''8''), (''dniDoctor'', JStr ''789''),
                    (''dia'', JStr ''Martes''), (''hora'', JStr ''10:00:00'')])
             ''Error al obtener los datos del doctor''])]
   \<and> responses (listar_part_000 listar_dos ''123'') =
       [(200, Entries
          [Con_doctor [(''id'', Some (JStr ''7'')), (''fecha'', Some (JStr ''Lunes'')),
                       (''hora'', Some (JStr ''09:00:00''))]
             [(''nombres'', Some (JStr ''Luis'')), (''apellidos'', Some (JStr ''Perez'')),
              (''especialidad'', Some (JStr ''Cardiologia''))],
           Sin_doctor
             (JObj [(''id'', JStr ''8''), (''dniDoctor'', JStr ''789''),
                    (''dia'', JStr ''Martes''), (''hora'', JStr ''10:00:00'')])
             ''Error al obtener los datos del doctor''])]"
proof -
  let ?cs = "[cita_7,
              JObj [(''id'', JStr ''8''), (''dniDoctor'', JStr ''789''),
                    (''dia'', JStr ''Martes''), (''hora'', JStr ''10:00:00'')]]"
  have h0: "citasResponse listar_ninguna = Inr (JArr [])"
    by (simp add: listar_ninguna_def)
  have h: "citasResponse listar_dos = Inr (JArr ?cs) \<and> ?cs \<noteq> [] \<and> JNull \<notin> set ?cs"
    by (simp add: listar_dos_def cita_7_def)
  have up: "upt 0 (length ?cs) = [0, 1]"
    by (simp add: upt_rec)
  note inst0 = listar_citas_con_doctor [where up = listar_ninguna and dni = "''123''"]
  note inst = listar_citas_con_doctor
    [where up = listar_dos and dni = "''123''" and cs = "?cs"]
  from inst0 h0 have "listar listar_ninguna ''123'' =
       [Request GET [Lit (''http://historiamedica:8080/citas/paciente/'' @ ''123'')] None,
        Send 404 (Text [Lit (''No se encontraron citas para el paciente con DNI '' @ ''123'')])]"
    by blast
  then have 0: "listar listar_ninguna ''123'' =
       [Request GET [Lit ''http://historiamedica:8080/citas/paciente/123''] None,
        Send 404 (Text [Lit ''No se encontraron citas para el paciente con DNI 123''])]"
    by simp
  from inst h have 1: "listar listar_dos ''123'' =
       [Request GET [Lit ''http://historiamedica:8080/citas/paciente/123''] None,
        Request GET [Lit ''http://doctores:3000/doctors/'', Val (Some (JStr ''456''))] None,
        Request GET [Lit ''http://doctores:3000/doctors/'', Val (Some (JStr ''789''))] None,
        Send 200 (Entries
          [Con_doctor [(''fecha'', Some (JStr ''Lunes'')), (''hora'', Some (JStr ''09:00:00''))]
             [(''nombres'', Some (JStr ''Luis'')), (''apellidos'', Some (JStr ''Perez'')),
              (''especialidad'', Some (JStr ''Cardiologia''))],
           Sin_doctor
             (JObj [(''id'', JStr ''8''), (''dniDoctor'', JStr ''789''),
                    (''dia'', JStr ''Martes''), (''hora'', JStr ''10:00:00'')])
             ''Error al obtener los datos del doctor''])]"
    unfolding up by (simp add: listar_dos_def cita_7_def)
  from inst h have "listar_part_000 listar_dos ''123'' =
       [Request GET [Lit ''http://historiamedica:8080/citas/paciente/123''] None,
        Request GET [Lit ''http://doctores:3000/doctors/'', Val (Some (JStr ''456''))] None,
        Request GET [Lit ''http://doctores:3000/doctors/'', Val (Some (JStr ''789''))] None,
        Send 200 (Entries
          [Con_doctor [(''id'', Some (JStr ''7'')), (''fecha'', Some (JStr ''Lunes'')),
                       (''hora'', Some (JStr ''09:00:00''))]
             [(''nombres'', Some (JStr ''Luis'')), (''apellidos'', Some (JStr ''Perez'')),
              (''especialidad'', Some (JStr ''Cardiologia''))],
           Sin_doctor
             (JObj [(''id'', JStr ''8''), (''dniDoctor'', JStr ''789''),
                    (''dia'', JStr ''Martes''), (''hora'', JStr ''10:00:00'')])
             ''Error al obtener los datos del doctor''])]"
    unfolding up by (simp add: listar_dos_def cita_7_def)
  then have 2: "responses (listar_part_000 listar_dos ''123'') =
       [(200, Entries
          [Con_doctor [(''id'', Some (JStr ''7'')), (''fecha'', Some (JStr ''Lunes'')),
                       (''hora'', Some (JStr ''09:00:00''))]
             [(''nombres'', Some (JStr ''Luis'')), (''apellidos'', Some (JStr ''Perez'')),
              (''especialidad'', Some (JStr ''Cardiologia''))],
           Sin_doctor
             (JObj [(''id'', JStr ''8''), (''dniDoctor'', JStr ''789''),
                    (''dia'', JStr ''Martes''), (''hora'', JStr ''10:00:00'')])
             ''Error al obtener los datos del doctor''])]"
    by simp
  from h0 0 1 2 show ?thesis by blast
qed

section \<open>Reading the availability of a doctor\<close>

text \<open>
  C9, as amended.  For every request for the availability of a doctor whose query
  succeeds, the response is 200 and reaches the caller as a JSON array with one object
  for each row of that doctor, in the order of the rows.  Each object has the three
  columns of its row, \<^verbatim>\<open>dia\<close>, \<^verbatim>\<open>hora\<close> and \<^verbatim>\<open>dni_doctor\<close>, the last being the doctor
  asked for; and a day and time are in the array exactly when the table holds that
  slot of the doctor.
\<close>

theorem disponibilidad_get_rows:
  "query_ok \<Longrightarrow>
     fst (disponibilidad_get query_ok table dni) = 200
   \<and> axios_of (disponibilidad_get query_ok table dni) =
       Inr (JArr (map (\<lambda>r. JObj [(''dia'', JStr (row_dia r)), (''hora'', JStr (row_hora r)),
                                  (''dni_doctor'', JStr dni)])
                    (filter (\<lambda>r. dni_doctor r = dni) table)))
   \<and> (\<forall>es. axios_of (disponibilidad_get query_ok table dni) = Inr (JArr es) \<longrightarrow>
         (\<forall>e \<in> set es. object_keys e = [''dia'', ''hora'', ''dni_doctor''])
       \<and> (\<forall>di ho. JObj [(''dia'', JStr di), (''hora'', JStr ho), (''dni_doctor'', JStr dni)]
                     \<in> set es
                   \<longleftrightarrow> \<lparr>row_dia = di, row_hora = ho, dni_doctor = dni\<rparr> \<in> set table))"
proof -
  assume "query_ok"
  let ?obj = "\<lambda>r. JObj [(''dia'', JStr (row_dia r)), (''hora'', JStr (row_hora r)),
                         (''dni_doctor'', JStr dni)]"
  let ?rows = "filter (\<lambda>r. dni_doctor r = dni) table"
  from \<open>query_ok\<close> have answer: "disponibilidad_get query_ok table dni = (200, Rows ?rows)"
    by (simp add: disponibilidad_get_def)
  have "map row_json ?rows = map ?obj ?rows"
    by (rule map_cong) (simp_all add: row_json_def)
  with answer have arrives:
    "axios_of (disponibilidad_get query_ok table dni) = Inr (JArr (map ?obj ?rows))"
    by (simp add: axios_of_def)
  have keys: "\<forall>e \<in> set (map ?obj ?rows). object_keys e = [''dia'', ''hora'', ''dni_doctor'']"
    by simp
  have slots: "JObj [(''dia'', JStr di), (''hora'', JStr ho), (''dni_doctor'', JStr dni)]
        \<in> set (map ?obj ?rows)
      \<longleftrightarrow> \<lparr>row_dia = di, row_hora = ho, dni_doctor = dni\<rparr> \<in> set table" for di ho
  proof
    assume "JObj [(''dia'', JStr di), (''hora'', JStr ho), (''dni_doctor'', JStr dni)]
        \<in> set (map ?obj ?rows)"
    then obtain r where r: "r \<in> set table" "dni_doctor r = dni" "row_dia r = di" "row_hora r = ho"
      by auto
    from r(2-4) have "r = \<lparr>row_dia = di, row_hora = ho, dni_doctor = dni\<rparr>"
      by (cases r) simp
    with r(1) show "\<lparr>row_dia = di, row_hora = ho, dni_doctor = dni\<rparr> \<in> set table"
      by simp
  next
    assume "\<lparr>row_dia = di, row_hora = ho, dni_doctor = dni\<rparr> \<in> set table"
    then have "\<lparr>row_dia = di, row_hora = ho, dni_doctor = dni\<rparr> \<in> set ?rows"
      by simp
    then have "?obj \<lparr>row_dia = di, row_hora = ho, dni_doctor = dni\<rparr> \<in> set (map ?obj ?rows)"
      unfolding set_map by (rule imageI)
    then show "JObj [(''dia'', JStr di), (''hora'', JStr ho), (''dni_doctor'', JStr dni)]
        \<in> set (map ?obj ?rows)"
      by simp
  qed
  from answer arrives keys slots show ?thesis
    by simp
qed

text \<open>
  The theorem for doctor 456 on the table of the scenario: the array has the two rows
  of the doctor, and the slot of Lunes at 09:00:00 is in it.
\<close>

theorem disponibilidad_get_rows_witness:
  "axios_of (disponibilidad_get True escenario_table ''456'') =
     Inr (JArr [JObj [(''dia'', JStr ''Lunes''), (''hora'', JStr ''09:00:00''),
                      (''dni_doctor'', JStr ''456'')],
                JObj [(''dia'', JStr ''Martes''), (''hora'', JStr ''10:00:00''),
                      (''dni_doctor'', JStr ''456'')]])
   \<and> fst (disponibilidad_get True escenario_table ''456'') = 200"
proof -
  note inst = disponibilidad_get_rows [OF TrueI, of escenario_table "''456''"]
  from inst have "axios_of (disponibilidad_get True escenario_table ''456'') =
       Inr (JArr (map (\<lambda>r. JObj [(''dia'', JStr (row_dia r)), (''hora'', JStr (row_hora r)),
                                  (''dni_doctor'', JStr ''456'')])
                    (filter (\<lambda>r. dni_doctor r = ''456'') escenario_table)))"
    by blast
  then have 1: "axios_of (disponibilidad_get True escenario_table ''456'') =
     Inr (JArr [JObj [(''dia'', JStr ''Lunes''), (''hora'', JStr ''09:00:00''),
                      (''dni_doctor'', JStr ''456'')],
                JObj [(''dia'', JStr ''Martes''), (''hora'', JStr ''10:00:00''),
                      (''dni_doctor'', JStr ''456'')]])"
    by (simp add: escenario_table_def)
  from inst have 2: "fst (disponibilidad_get True escenario_table ''456'') = 200"
    by blast
  from 1 2 show ?thesis by blast
qed

text \<open>
  C9 as stated fails on the table of the scenario: the objects sent for doctor 456 have
  a third property, \<^verbatim>\<open>dni_doctor\<close>, so they are not of the shape of \<^verbatim>\<open>dia\<close> and
  \<^verbatim>\<open>hora\<close> alone.
\<close>

theorem disponibilidad_get_dni_doctor:
  "axios_of (disponibilidad_get True escenario_table ''456'') =
     Inr (JArr [JObj [(''dia'', JStr ''Lunes''), (''hora'', JStr ''09:00:00''),
                      (''dni_doctor'', JStr ''456'')],
                JObj [(''dia'', JStr ''Martes''), (''hora'', JStr ''10:00:00''),
                      (''dni_doctor'', JStr ''456'')]])
   \<and> object_keys (JObj [(''dia'', JStr ''Lunes''), (''hora'', JStr ''09:00:00''),
                        (''dni_doctor'', JStr ''456'')]) = [''dia'', ''hora'', ''dni_doctor'']
   \<and> ''dni_doctor''
       \<in> set (object_keys (JObj [(''dia'', JStr ''Lunes''), (''hora'', JStr ''09:00:00''),
                                 (''dni_doctor'', JStr ''456'')]))
   \<and> ''dni_doctor'' \<notin> {''dia'', ''hora''}"
  by (simp add: disponibilidad_get_def axios_of_def row_json_def escenario_table_def)

section \<open>Empty bodies\<close>

text \<open>
  C10.  During a booking the patient counts as not found, with the answer 404, when the
  patient directory answers 404 and also when its call resolves with an empty or falsy
  body; and once a patient is found, the same holds of the doctor and the doctor
  directory.  In all four cases no appointment is created.
\<close>

theorem agendar_cuerpo_vacio:
  "(pacienteResponse up = Inl (With_response 404 d)
      \<or> (\<exists>pdata. pacienteResponse up = Inr pdata \<and> \<not> truthy pdata) \<longrightarrow>
      agendar up req =
        [paciente_request req, Send 404 (Text [Lit ''Paciente no encontrado''])]
    \<and> cita_request req \<notin> set (agendar up req))
   \<and> (existe (pacienteResponse up)
      \<and> (doctorResponse up = Inl (With_response 404 d)
           \<or> (\<exists>ddata. doctorResponse up = Inr ddata \<and> \<not> truthy ddata)) \<longrightarrow>
      agendar up req =
        [paciente_request req, doctor_request req,
         Send 404 (Text [Lit ''Doctor no encontrado''])]
    \<and> cita_request req \<notin> set (agendar up req))"
proof -
  have "existe (pacienteResponse up) \<Longrightarrow>
      doctorResponse up = Inl (With_response 404 d)
        \<or> (\<exists>ddata. doctorResponse up = Inr ddata \<and> \<not> truthy ddata) \<Longrightarrow>
      agendar up req =
        [paciente_request req, doctor_request req,
         Send 404 (Text [Lit ''Doctor no encontrado''])]
    \<and> cita_request req \<notin> set (agendar up req)"
    using existe_Inr [of "pacienteResponse up"] by (auto simp: agendar_defs)
  then show ?thesis
    by (auto simp: agendar_defs)
qed

text \<open>
  The theorem in the scenario, with a patient directory that answers 200 and an empty
  body, and with a doctor directory that answers 404.
\<close>

theorem agendar_cuerpo_vacio_witness:
  "pacienteResponse escenario_vacio = Inr (JStr []) \<and> \<not> truthy (JStr [])
   \<and> agendar escenario_vacio escenario =
       [paciente_request escenario, Send 404 (Text [Lit ''Paciente no encontrado''])]
   \<and> existe (pacienteResponse escenario_sin_doctor)
   \<and> doctorResponse escenario_sin_doctor = Inl (With_response 404 (JStr ''Not Found''))
   \<and> agendar escenario_sin_doctor escenario =
       [paciente_request escenario, doctor_request escenario,
        Send 404 (Text [Lit ''Doctor no encontrado''])]
   \<and> cita_request escenario \<notin> set (agendar escenario_sin_doctor escenario)"
proof -
  have h1: "pacienteResponse escenario_vacio = Inr (JStr [])" and h2: "\<not> truthy (JStr [])"
    and h3: "existe (pacienteResponse escenario_sin_doctor)"
    and h4: "doctorResponse escenario_sin_doctor = Inl (With_response 404 (JStr ''Not Found''))"
    by (simp_all add: escenario_defs)
  note inst1 = agendar_cuerpo_vacio
    [where up = escenario_vacio and req = escenario and d = "JStr ''Not Found''"]
  note inst2 = agendar_cuerpo_vacio
    [where up = escenario_sin_doctor and req = escenario and d = "JStr ''Not Found''"]
  from inst1 h1 h2 have 1: "agendar escenario_vacio escenario =
       [paciente_request escenario, Send 404 (Text [Lit ''Paciente no encontrado''])]"
    by blast
  from inst2 h3 h4 have 2: "agendar escenario_sin_doctor escenario =
       [paciente_request escenario, doctor_request escenario,
        Send 404 (Text [Lit ''Doctor no encontrado''])]"
    and 3: "cita_request escenario \<notin> set (agendar escenario_sin_doctor escenario)"
    by blast+
  from h1 h2 h3 h4 1 2 3 show ?thesis by blast
qed

end
